theory Spec2Isabelle
  imports Complex_Main
begin

section \<open>Python values\<close>

text \<open>
  The services pass evaluations, analyses and assessments around as Python dicts whose values
  are numbers, strings, lists and nested dicts. A value is a \<open>pyval\<close>; a dict that the code
  indexes by key is a map from key strings to values. Python floats are taken as the reals
  they denote (no binary rounding), ints and floats are one constructor, and \<open>bool\<close> counts as
  a number wherever Python lets it (\<open>isinstance(True, int)\<close> holds, \<open>True + 5\<close> is 6).
  A nested dict value is an association list read with \<open>map_of\<close>.
\<close>

datatype pyval =
    PNone
  | PBool bool
  | PNum real
  | PStr string
  | PList "pyval list"
  | PDict "(string \<times> pyval) list"

type_synonym pydict = "string \<rightharpoonup> pyval"

datatype error = ProviderError | JSONDecodeError | ValueError | TypeError | KeyError

fun num_of :: "pyval \<Rightarrow> real option" where
  "num_of (PNum x) = Some x"
| "num_of (PBool b) = Some (if b then 1 else 0)"
| "num_of PNone = None"
| "num_of (PStr s) = None"
| "num_of (PList xs) = None"
| "num_of (PDict kvs) = None"

text \<open>\<open>round(x, 2)\<close>: to the nearest multiple of 0.01, a tie going to the even neighbour.\<close>

definition round_half_even :: "real \<Rightarrow> int" where
  "round_half_even x =
     (let f = \<lfloor>x\<rfloor>; d = x - of_int f
      in if d < 1 / 2 then f else if 1 / 2 < d then f + 1 else if even f then f else f + 1)"

definition py_round2 :: "real \<Rightarrow> real" where
  "py_round2 x = of_int (round_half_even (x * 100)) / 100"

text \<open>\<open>sum(xs) / len(xs)\<close> on a list the caller knows to be non-empty.\<close>

definition mean :: "real list \<Rightarrow> real" where
  "mean xs = sum_list xs / real (length xs)"

text \<open>\<open>xs[-3:]\<close>: the last three elements, or all of them when there are fewer.\<close>

definition last3 :: "'a list \<Rightarrow> 'a list" where
  "last3 xs = drop (length xs - 3) xs"

text \<open>\<open>[d[f] for f in fields]\<close> raises KeyError at the first missing key.\<close>

fun lookup_all :: "string list \<Rightarrow> pydict \<Rightarrow> error + pyval list" where
  "lookup_all [] d = Inr []"
| "lookup_all (f # fs) d =
     (case d f of
        None \<Rightarrow> Inl KeyError
      | Some v \<Rightarrow> (case lookup_all fs d of Inl e \<Rightarrow> Inl e | Inr vs \<Rightarrow> Inr (v # vs)))"

text \<open>\<open>sum(vs)\<close> raises TypeError at the first element that is not a number.\<close>

fun py_sum :: "pyval list \<Rightarrow> error + real" where
  "py_sum [] = Inr 0"
| "py_sum (v # vs) =
     (case num_of v of
        None \<Rightarrow> Inl TypeError
      | Some x \<Rightarrow> (case py_sum vs of Inl e \<Rightarrow> Inl e | Inr s \<Rightarrow> Inr (x + s)))"

section \<open>llm\_service.py: the model-scored pass\<close>

text \<open>
  \<open>generate_response\<close> is a network call: it raises, or it returns the provider's text.
  \<open>json.loads\<close> is the standard library's parser, taken as the parameter \<open>json_loads\<close>
  (\<open>None\<close> when it raises JSONDecodeError).
\<close>

datatype llm_reply = Raises | Returns string

definition is_space :: "char \<Rightarrow> bool" where
  "is_space c = (let n = (of_char c :: nat) in (9 \<le> n \<and> n \<le> 13) \<or> (28 \<le> n \<and> n \<le> 32))"

definition strip :: "string \<Rightarrow> string" where
  "strip s = rev (dropWhile is_space (rev (dropWhile is_space s)))"

definition startswith :: "string \<Rightarrow> string \<Rightarrow> bool" where
  "startswith s p = (take (length p) s = p)"

definition endswith :: "string \<Rightarrow> string \<Rightarrow> bool" where
  "endswith s p = (length p \<le> length s \<and> drop (length s - length p) s = p)"

definition fence :: string where
  "fence = [CHR 0x60, CHR 0x60, CHR 0x60]"

definition clean_response :: "string \<Rightarrow> string" where
  "clean_response response =
     (let r1 = strip response;
          r2 = (if startswith r1 fence then drop 7 r1 else r1);
          r3 = (if endswith r2 fence then take (length r2 - 3) r2 else r2)
      in strip r3)"

definition sub_score_fields :: "string list" where
  "sub_score_fields =
     [''technical_accuracy'', ''communication_clarity'', ''problem_solving_approach'',
      ''completeness'', ''efficiency'']"

definition score_fields :: "string list" where
  "score_fields = sub_score_fields @ [''overall_score'']"

definition required_fields :: "string list" where
  "required_fields =
     score_fields @ [''feedback'', ''strengths'', ''areas_for_improvement'', ''next_difficulty_level'']"

definition llm_base_score :: "string \<Rightarrow> real" where
  "llm_base_score difficulty =
     (if difficulty = ''basic'' then 65
      else if difficulty = ''intermediate'' then 55
      else if difficulty = ''advanced'' then 45
      else 55)"

definition fallback_feedback :: "string \<Rightarrow> string" where
  "fallback_feedback difficulty =
     ''Unable to fully evaluate response due to technical issues. Based on '' @ difficulty @
     '' level expectations, this appears to be a reasonable attempt. Please provide more specific Excel details for better assessment.''"

text \<open>\<open>LLMService._get_fallback_evaluation\<close>.\<close>

definition llm_get_fallback_evaluation :: "string \<Rightarrow> pydict" where
  "llm_get_fallback_evaluation difficulty =
     (let base_score = llm_base_score difficulty in
      [''technical_accuracy'' \<mapsto> PNum base_score,
       ''communication_clarity'' \<mapsto> PNum base_score,
       ''problem_solving_approach'' \<mapsto> PNum base_score,
       ''completeness'' \<mapsto> PNum base_score,
       ''efficiency'' \<mapsto> PNum base_score,
       ''overall_score'' \<mapsto> PNum base_score,
       ''feedback'' \<mapsto> PStr (fallback_feedback difficulty),
       ''strengths'' \<mapsto> PList [PStr ''Attempted to answer the question'',
                                 PStr ''Showed understanding of the problem''],
       ''areas_for_improvement'' \<mapsto> PList [PStr ''Provide specific Excel formulas and functions'',
                                             PStr ''Explain step-by-step process'',
                                             PStr ''Include practical examples''],
       ''next_difficulty_level'' \<mapsto> PStr difficulty])"

text \<open>
  The range loop: a score that is not a number becomes 50, a number outside [0, 100] is
  clamped, a number inside is left as it is.
\<close>

fun clamp_scores :: "string list \<Rightarrow> pydict \<Rightarrow> error + pydict" where
  "clamp_scores [] evaluation = Inr evaluation"
| "clamp_scores (field # rest) evaluation =
     (case evaluation field of
        None \<Rightarrow> Inl KeyError
      | Some score \<Rightarrow>
          (case num_of score of
             None \<Rightarrow> clamp_scores rest (evaluation(field \<mapsto> PNum (max 0 (min 100 50))))
           | Some x \<Rightarrow>
               if x < 0 \<or> x > 100
               then clamp_scores rest (evaluation(field \<mapsto> PNum (max 0 (min 100 x))))
               else clamp_scores rest evaluation))"

text \<open>
  The body of the \<open>try\<close> block of \<open>evaluate_excel_response\<close>, every raise a left value.
  A parsed value that is not a dict fails the field check with ValueError or the indexing
  with TypeError, depending on its type; both end in the same handler result.
\<close>

definition try_evaluate :: "(string \<Rightarrow> pyval option) \<Rightarrow> llm_reply \<Rightarrow> error + pydict" where
  "try_evaluate json_loads reply =
     (case reply of
        Raises \<Rightarrow> Inl ProviderError
      | Returns response \<Rightarrow>
          (case json_loads (clean_response response) of
             None \<Rightarrow> Inl JSONDecodeError
           | Some (PDict kvs) \<Rightarrow>
               (let evaluation = map_of kvs in
                if list_ex (\<lambda>field. evaluation field = None) required_fields then Inl ValueError
                else
                  (case clamp_scores score_fields evaluation of
                     Inl e \<Rightarrow> Inl e
                   | Inr evaluation' \<Rightarrow>
                       (case lookup_all (butlast score_fields) evaluation' of
                          Inl e \<Rightarrow> Inl e
                        | Inr scores \<Rightarrow>
                            (case py_sum scores of
                               Inl e \<Rightarrow> Inl e
                             | Inr s \<Rightarrow>
                                 Inr (evaluation'(''overall_score'' \<mapsto>
                                        PNum (py_round2 (s / real (length scores)))))))))
           | Some _ \<Rightarrow> Inl TypeError))"

text \<open>Each \<open>except\<close> clause returns the fallback evaluation.\<close>

definition evaluate_excel_response ::
  "(string \<Rightarrow> pyval option) \<Rightarrow> llm_reply \<Rightarrow> string \<Rightarrow> pydict" where
  "evaluate_excel_response json_loads reply difficulty =
     (case try_evaluate json_loads reply of
        Inl e \<Rightarrow> llm_get_fallback_evaluation difficulty
      | Inr evaluation \<Rightarrow> evaluation)"

section \<open>excel\_evaluator.py: heuristics, blend and cache\<close>

text \<open>
  \<open>_perform_local_analysis\<close> reads the answer with Python's string library and \<open>re\<close>
  (\<open>upper\<close>, \<open>lower\<close>, \<open>split\<close>, substring tests, two regular expressions) and fills the
  dict below. Its result is an input of the model, so every statement about the blend holds
  for whatever the heuristics find in the text.
\<close>

record tech_ind =
  mentions_formulas :: bool
  mentions_steps :: bool
  mentions_specific_functions :: bool
  mentions_cell_references :: bool
  mentions_ranges :: bool

record comm_ind =
  uses_explanation :: bool
  provides_examples :: bool
  structured_response :: bool
  appropriate_length :: bool

record comp_ind =
  addresses_how :: bool
  addresses_what :: bool
  addresses_when :: bool
  provides_alternatives :: bool

record local_analysis =
  response_length :: nat
  word_count :: nat
  excel_functions_mentioned :: "string list"
  excel_concepts_mentioned :: "string list"
  keyword_density :: real
  technical_indicators :: tech_ind
  communication_indicators :: comm_ind
  completeness_indicators :: comp_ind

text \<open>The analysis as the dict value stored under \<open>"local_analysis"\<close>.\<close>

definition analysis_value :: "local_analysis \<Rightarrow> pyval" where
  "analysis_value a =
     PDict
      [(''response_length'', PNum (real (response_length a))),
       (''word_count'', PNum (real (word_count a))),
       (''excel_functions_mentioned'', PList (map PStr (excel_functions_mentioned a))),
       (''excel_concepts_mentioned'', PList (map PStr (excel_concepts_mentioned a))),
       (''keyword_density'', PNum (keyword_density a)),
       (''technical_indicators'',
          PDict [(''mentions_formulas'', PBool (mentions_formulas (technical_indicators a))),
                 (''mentions_steps'', PBool (mentions_steps (technical_indicators a))),
                 (''mentions_specific_functions'',
                    PBool (mentions_specific_functions (technical_indicators a))),
                 (''mentions_cell_references'',
                    PBool (mentions_cell_references (technical_indicators a))),
                 (''mentions_ranges'', PBool (mentions_ranges (technical_indicators a)))]),
       (''communication_indicators'',
          PDict [(''uses_explanation'', PBool (uses_explanation (communication_indicators a))),
                 (''provides_examples'', PBool (provides_examples (communication_indicators a))),
                 (''structured_response'',
                    PBool (structured_response (communication_indicators a))),
                 (''appropriate_length'',
                    PBool (appropriate_length (communication_indicators a)))]),
       (''completeness_indicators'',
          PDict [(''addresses_how'', PBool (addresses_how (completeness_indicators a))),
                 (''addresses_what'', PBool (addresses_what (completeness_indicators a))),
                 (''addresses_when'', PBool (addresses_when (completeness_indicators a))),
                 (''provides_alternatives'',
                    PBool (provides_alternatives (completeness_indicators a)))])]"

definition points :: "bool \<Rightarrow> real \<Rightarrow> real" where
  "points b p = (if b then p else 0)"

definition calculate_score_adjustments :: "local_analysis \<Rightarrow> string \<Rightarrow> (string \<times> real) list" where
  "calculate_score_adjustments analysis difficulty =
     (let tech = technical_indicators analysis;
          comm = communication_indicators analysis;
          comp = completeness_indicators analysis;
          completeness_score =
            2 * sum_list (map (\<lambda>b. points b 1)
                  [addresses_how comp, addresses_what comp, addresses_when comp,
                   provides_alternatives comp])
      in [(''technical_accuracy'',
             0 + points (mentions_specific_functions tech) 5
               + points (mentions_cell_references tech) 3
               + points (mentions_ranges tech) 2),
          (''communication_clarity'',
             0 + points (uses_explanation comm) 4
               + points (provides_examples comm) 3
               + points (structured_response comm) 2
               - points (\<not> appropriate_length comm) 5),
          (''problem_solving_approach'',
             0 + points (mentions_steps tech) 4
               + points (keyword_density analysis > 1 / 10) 2),
          (''completeness'', 0 + completeness_score),
          (''efficiency'', 0)])"

definition calculate_confidence :: "pydict \<Rightarrow> local_analysis \<Rightarrow> real" where
  "calculate_confidence evaluation analysis =
     (let wc = word_count analysis;
          length_factor =
            (if 30 \<le> wc \<and> wc \<le> 150 then 9 / 10
             else if 15 \<le> wc \<and> wc \<le> 200 then 7 / 10
             else 5 / 10);
          content_factor =
            (if length (excel_functions_mentioned analysis) > 0 then 8 / 10 else 6 / 10)
      in py_round2 ((length_factor + content_factor) / 2))"

text \<open>
  The adjustment loop of \<open>_enhance_evaluation\<close>: a field that is in both dicts gets its
  adjustment, cut to [-15, 15], and the sum is cut to [0, 100]. Adding to a value that is
  not a number raises TypeError.
\<close>

fun apply_adjustments :: "string list \<Rightarrow> (string \<rightharpoonup> real) \<Rightarrow> pydict \<Rightarrow> error + pydict" where
  "apply_adjustments [] adjustments enhanced = Inr enhanced"
| "apply_adjustments (field # rest) adjustments enhanced =
     (case enhanced field of
        None \<Rightarrow> apply_adjustments rest adjustments enhanced
      | Some original_score \<Rightarrow>
          (case adjustments field of
             None \<Rightarrow> apply_adjustments rest adjustments enhanced
           | Some adjustment \<Rightarrow>
               (case num_of original_score of
                  None \<Rightarrow> Inl TypeError
                | Some x \<Rightarrow>
                    (let adjusted_score = x + min 15 (max (- 15) adjustment)
                     in apply_adjustments rest adjustments
                          (enhanced(field \<mapsto> PNum (max 0 (min 100 adjusted_score))))))))"

definition try_enhance :: "pydict \<Rightarrow> local_analysis \<Rightarrow> string \<Rightarrow> error + pydict" where
  "try_enhance ai_evaluation analysis difficulty =
     (let adjustments = calculate_score_adjustments analysis difficulty in
      case apply_adjustments sub_score_fields (map_of adjustments) ai_evaluation of
        Inl e \<Rightarrow> Inl e
      | Inr enhanced \<Rightarrow>
          (case lookup_all sub_score_fields enhanced of
             Inl e \<Rightarrow> Inl e
           | Inr scores \<Rightarrow>
               (case py_sum scores of
                  Inl e \<Rightarrow> Inl e
                | Inr s \<Rightarrow>
                    (let enhanced1 = enhanced(''overall_score'' \<mapsto>
                                       PNum (py_round2 (s / real (length scores))));
                         enhanced2 = enhanced1(''local_analysis'' \<mapsto> analysis_value analysis);
                         enhanced3 = enhanced2(''score_adjustments'' \<mapsto>
                                       PDict (map (\<lambda>(k, a). (k, PNum a)) adjustments))
                     in Inr (enhanced3(''confidence_score'' \<mapsto>
                               PNum (calculate_confidence enhanced3 analysis)))))))"

text \<open>On any exception \<open>_enhance_evaluation\<close> returns the provider's evaluation untouched.\<close>

definition enhance_evaluation :: "pydict \<Rightarrow> local_analysis \<Rightarrow> string \<Rightarrow> pydict" where
  "enhance_evaluation ai_evaluation analysis difficulty =
     (case try_enhance ai_evaluation analysis difficulty of
        Inl e \<Rightarrow> ai_evaluation
      | Inr enhanced \<Rightarrow> enhanced)"

text \<open>
  The cache key is the text \<open>f"{hash(question)}_{hash(response)}_{difficulty}"\<close>. Neither
  number contains an underscore, so the text determines the three parts and the triple
  stands for it. Python's \<open>hash\<close> on strings is the parameter \<open>py_hash\<close>.
\<close>

type_synonym cache_key = "int \<times> int \<times> string"

definition generate_cache_key :: "(string \<Rightarrow> int) \<Rightarrow> string \<Rightarrow> string \<Rightarrow> string \<Rightarrow> cache_key" where
  "generate_cache_key py_hash question response difficulty =
     (py_hash question, py_hash response, difficulty)"

record evaluator =
  evaluation_cache :: "cache_key \<rightharpoonup> pydict"
  evaluation_count :: nat
  average_evaluation_time :: real

definition update_stats :: "evaluator \<Rightarrow> real \<Rightarrow> evaluator" where
  "update_stats ev t =
     (let n = evaluation_count ev + 1 in
      ev\<lparr>evaluation_count := n,
         average_evaluation_time :=
           (if average_evaluation_time ev = 0 then t
            else (average_evaluation_time ev * (real n - 1) + t) / real n)\<rparr>)"

text \<open>
  What one call of \<open>evaluate_response\<close> takes from outside: the heuristics' result, the
  provider's reply and the elapsed time.
\<close>

record eval_input =
  local_result :: local_analysis
  reply :: llm_reply
  elapsed :: real

text \<open>
  \<open>ExcelEvaluator.evaluate_response\<close>. With string arguments no statement of its \<open>try\<close>
  block raises (the provider call and the blend catch their own exceptions), so the outer
  handler is not a branch here.
\<close>

definition evaluate_response ::
  "(string \<Rightarrow> int) \<Rightarrow> (string \<Rightarrow> pyval option) \<Rightarrow> eval_input \<Rightarrow> evaluator \<Rightarrow>
   string \<Rightarrow> string \<Rightarrow> string \<Rightarrow> string \<Rightarrow> pydict \<times> evaluator" where
  "evaluate_response py_hash json_loads inp ev question_text candidate_response difficulty question_type =
     (let cache_key = generate_cache_key py_hash question_text candidate_response difficulty in
      case evaluation_cache ev cache_key of
        Some cached \<Rightarrow> (cached(''evaluation_method'' \<mapsto> PStr ''cached''), ev)
      | None \<Rightarrow>
          (let ai_evaluation = evaluate_excel_response json_loads (reply inp) difficulty;
               enhanced_evaluation = enhance_evaluation ai_evaluation (local_result inp) difficulty;
               ev1 = ev\<lparr>evaluation_cache := (evaluation_cache ev)(cache_key \<mapsto> enhanced_evaluation)\<rparr>;
               ev2 = update_stats ev1 (elapsed inp)
           in (enhanced_evaluation(''evaluation_time'' \<mapsto> PNum (elapsed inp),
                                   ''evaluation_method'' \<mapsto> PStr ''ai_enhanced''),
               ev2)))"

section \<open>question\_bank.py: the question repository and the adaptive selector\<close>

datatype QuestionType = FORMULA | DATA_ANALYSIS | PROBLEM_SOLVING | SCENARIO | PRACTICAL

datatype QuestionDifficulty = BASIC | INTERMEDIATE | ADVANCED

datatype QuestionCategory =
    BASIC_FUNCTIONS | ADVANCED_FUNCTIONS | DATA_MANIPULATION | PIVOT_TABLES
  | CHARTS_VISUALIZATION | CONDITIONAL_LOGIC | LOOKUP_FUNCTIONS | STATISTICAL_ANALYSIS
  | FINANCIAL_MODELING | AUTOMATION_MACROS

text \<open>\<open>QuestionDifficulty(s)\<close> raises ValueError on a string that names no tier.\<close>

definition to_difficulty :: "string \<Rightarrow> error + QuestionDifficulty" where
  "to_difficulty s =
     (if s = ''basic'' then Inr BASIC
      else if s = ''intermediate'' then Inr INTERMEDIATE
      else if s = ''advanced'' then Inr ADVANCED
      else Inl ValueError)"

fun difficulty_value :: "QuestionDifficulty \<Rightarrow> string" where
  "difficulty_value BASIC = ''basic''"
| "difficulty_value INTERMEDIATE = ''intermediate''"
| "difficulty_value ADVANCED = ''advanced''"

text \<open>
  \<open>ExcelQuestion\<close>, with the fields the services read or write. The keyword, sample answer,
  follow-up, tag and time-limit fields are carried along by the source and never read.
\<close>

record question =
  qid :: string
  question_text :: string
  question_type :: QuestionType
  difficulty :: QuestionDifficulty
  category :: "QuestionCategory option"
  is_active :: bool
  times_used :: nat
  average_score :: "real option"
  pass_rate :: "real option"
  average_response_time :: "real option"

definition new_question ::
  "string \<Rightarrow> string \<Rightarrow> QuestionType \<Rightarrow> QuestionDifficulty \<Rightarrow> QuestionCategory \<Rightarrow> question" where
  "new_question i t ty d c =
     \<lparr>qid = i, question_text = t, question_type = ty, difficulty = d, category = Some c,
      is_active = True, times_used = 0, average_score = None, pass_rate = None,
      average_response_time = None\<rparr>"

text \<open>\<open>_load_questions\<close>: the fifteen built-in questions.\<close>

definition load_questions :: "question list" where
  "load_questions =
     [new_question ''basic_001''
        ''How would you calculate the sum of values in cells A1 to A10?''
        FORMULA BASIC BASIC_FUNCTIONS,
      new_question ''basic_002''
        ''Explain how to create a basic pivot table from a data set.''
        DATA_ANALYSIS BASIC PIVOT_TABLES,
      new_question ''basic_003''
        ''How do you use VLOOKUP to find a value in another table?''
        FORMULA BASIC LOOKUP_FUNCTIONS,
      new_question ''basic_004''
        ''How would you apply conditional formatting to highlight cells based on their values?''
        DATA_ANALYSIS BASIC DATA_MANIPULATION,
      new_question ''basic_005''
        ''What is the difference between relative and absolute cell references?''
        FORMULA BASIC BASIC_FUNCTIONS,
      new_question ''inter_001''
        ''You have sales data with duplicate entries. How would you identify and remove duplicates while preserving the most recent record?''
        DATA_ANALYSIS INTERMEDIATE DATA_MANIPULATION,
      new_question ''inter_002''
        (''Explain INDEX-MATCH combination and when you'' @ [CHR 0x27] @ ''d use it over VLOOKUP.'')
        FORMULA INTERMEDIATE LOOKUP_FUNCTIONS,
      new_question ''inter_003''
        ''How would you create a dynamic dashboard that updates when new data is added?''
        SCENARIO INTERMEDIATE DATA_MANIPULATION,
      new_question ''inter_004''
        ''Describe how to use data validation to create dropdown lists and prevent invalid data entry.''
        DATA_ANALYSIS INTERMEDIATE DATA_MANIPULATION,
      new_question ''inter_005''
        ''How would you use COUNTIFS and SUMIFS for multi-criteria analysis?''
        FORMULA INTERMEDIATE CONDITIONAL_LOGIC,
      new_question ''adv_001''
        ''You need to analyze sales performance across multiple dimensions (time, region, product) with complex calculations. Describe your approach using advanced Excel features.''
        PROBLEM_SOLVING ADVANCED STATISTICAL_ANALYSIS,
      new_question ''adv_002''
        (''Describe how you'' @ [CHR 0x27] @ ''d build an automated financial model that handles scenario analysis and sensitivity testing.'')
        PRACTICAL ADVANCED FINANCIAL_MODELING,
      new_question ''adv_003''
        ''You have messy data from multiple sources that needs cleaning and standardization before analysis. Walk through your process.''
        DATA_ANALYSIS ADVANCED DATA_MANIPULATION,
      new_question ''adv_004''
        ''How would you implement array formulas or dynamic arrays to perform complex calculations across multiple ranges?''
        FORMULA ADVANCED ADVANCED_FUNCTIONS,
      new_question ''adv_005''
        ''Explain how you would create a real-time executive dashboard that pulls data from multiple databases and updates automatically.''
        SCENARIO ADVANCED AUTOMATION_MACROS]"

definition get_question_by_id :: "question list \<Rightarrow> string \<Rightarrow> question option" where
  "get_question_by_id qs question_id = find (\<lambda>q. qid q = question_id) qs"

text \<open>
  \<open>random.choice(xs)\<close> returns the element at a random index below \<open>len(xs)\<close>; the random
  draw is the number \<open>r\<close>, reduced to an index.
\<close>

definition random_choice :: "nat \<Rightarrow> 'a list \<Rightarrow> 'a option" where
  "random_choice r xs = (if xs = [] then None else Some (xs ! (r mod length xs)))"

text \<open>An \<open>exclude_ids\<close> that is \<open>None\<close> or empty switches the last filter off.\<close>

definition get_random_question ::
  "question list \<Rightarrow> QuestionDifficulty option \<Rightarrow> QuestionType option \<Rightarrow>
   QuestionCategory option \<Rightarrow> string list \<Rightarrow> nat \<Rightarrow> question option" where
  "get_random_question qs d ty c exclude_ids r =
     (let f0 = filter is_active qs;
          f1 = (case d of None \<Rightarrow> f0 | Some d' \<Rightarrow> filter (\<lambda>q. difficulty q = d') f0);
          f2 = (case ty of None \<Rightarrow> f1 | Some ty' \<Rightarrow> filter (\<lambda>q. question_type q = ty') f1);
          f3 = (case c of None \<Rightarrow> f2 | Some c' \<Rightarrow> filter (\<lambda>q. category q = Some c') f2);
          f4 = (if exclude_ids \<noteq> [] then filter (\<lambda>q. qid q \<notin> set exclude_ids) f3 else f3)
      in random_choice r f4)"

definition difficulty_order :: "QuestionDifficulty list" where
  "difficulty_order = [BASIC, INTERMEDIATE, ADVANCED]"

fun order_index :: "QuestionDifficulty \<Rightarrow> int" where
  "order_index BASIC = 0"
| "order_index INTERMEDIATE = 1"
| "order_index ADVANCED = 2"

text \<open>
  The first half of \<open>get_adaptive_question\<close>: the target tier from the current tier and the
  score history. The current tier is converted only on the branches that read it.
\<close>

definition target_difficulty :: "string \<Rightarrow> real list \<Rightarrow> error + QuestionDifficulty" where
  "target_difficulty current previous_scores =
     (if previous_scores \<noteq> [] then
        (let avg_recent_score = mean (last3 previous_scores) in
         if avg_recent_score \<ge> 85 then Inr ADVANCED
         else if avg_recent_score \<ge> 70 then Inr INTERMEDIATE
         else if avg_recent_score \<ge> 50 then to_difficulty current
         else
           (case to_difficulty current of
              Inl e \<Rightarrow> Inl e
            | Inr cur \<Rightarrow> Inr (difficulty_order ! nat (max 0 (order_index cur - 1)))))
      else to_difficulty current)"

text \<open>The search of the neighbouring tiers, in the order of the offsets.\<close>

fun try_offsets :: "question list \<Rightarrow> int \<Rightarrow> string list \<Rightarrow> nat \<Rightarrow> int list \<Rightarrow> question option" where
  "try_offsets qs current_index asked r [] = None"
| "try_offsets qs current_index asked r (offset # rest) =
     (let new_index = current_index + offset in
      if 0 \<le> new_index \<and> new_index < int (length difficulty_order) then
        (case get_random_question qs (Some (difficulty_order ! nat new_index)) None None asked r of
           Some q \<Rightarrow> Some q
         | None \<Rightarrow> try_offsets qs current_index asked r rest)
      else try_offsets qs current_index asked r rest)"

definition get_adaptive_question ::
  "question list \<Rightarrow> string \<Rightarrow> real list \<Rightarrow> string list \<Rightarrow> nat \<Rightarrow> error + question option" where
  "get_adaptive_question qs current previous_scores asked_question_ids r =
     (case target_difficulty current previous_scores of
        Inl e \<Rightarrow> Inl e
      | Inr target \<Rightarrow>
          (case get_random_question qs (Some target) None None asked_question_ids r of
             Some q \<Rightarrow> Inr (Some q)
           | None \<Rightarrow>
               Inr (try_offsets qs (order_index target) asked_question_ids r [- 1, 1, - 2, 2])))"

text \<open>\<open>ExcelQuestion.update_usage_stats\<close>: the running averages, with 60 as the pass mark.\<close>

definition update_usage_stats :: "question \<Rightarrow> real \<Rightarrow> real \<Rightarrow> question" where
  "update_usage_stats q score rt =
     (let n = times_used q + 1;
          avg = (case average_score q of
                   None \<Rightarrow> score
                 | Some a \<Rightarrow> (a * (real n - 1) + score) / real n);
          art = (case average_response_time q of
                   None \<Rightarrow> rt
                 | Some a \<Rightarrow> (a * (real n - 1) + rt) / real n);
          pr = (if score \<ge> 60 then
                  (case pass_rate q of
                     None \<Rightarrow> 100
                   | Some p \<Rightarrow> ((p / 100) * (real n - 1) + 1) / real n * 100)
                else
                  (case pass_rate q of
                     None \<Rightarrow> 0
                   | Some p \<Rightarrow> ((p / 100) * (real n - 1)) / real n * 100))
      in q\<lparr>times_used := n, average_score := Some avg, pass_rate := Some pr,
           average_response_time := Some art\<rparr>)"

text \<open>\<open>update_question_stats\<close> updates the first question with the id, if there is one.\<close>

fun update_question_stats :: "question list \<Rightarrow> string \<Rightarrow> real \<Rightarrow> real \<Rightarrow> question list" where
  "update_question_stats [] question_id score rt = []"
| "update_question_stats (q # qs) question_id score rt =
     (if qid q = question_id then update_usage_stats q score rt # qs
      else q # update_question_stats qs question_id score rt)"

section \<open>feedback\_engine.py: the assessment aggregator\<close>

text \<open>
  One entry of \<open>state["responses"]\<close>, as \<open>process_response\<close> builds it (\<open>asked_text\<close> is the
  key \<open>"question_text"\<close>; the timestamp is left out).
\<close>

record response_data =
  question_id :: string
  asked_text :: string
  candidate_response :: string
  evaluation :: pydict
  response_time :: real

datatype SkillAssessment =
  EXPERT | ADVANCED_LEVEL | INTERMEDIATE_LEVEL | BASIC_LEVEL | BEGINNER | INSUFFICIENT_DATA

datatype HireRecommendation = STRONG_HIRE | HIRE | CONDITIONAL_HIRE | NO_HIRE | STRONG_NO_HIRE

text \<open>
  The statistics dict. The keys \<open>consistency\<close>, \<open>performance_trend\<close> and \<open>score_range\<close>
  are missing from some of the dicts the source builds, so they are optional here.
\<close>

record perf_stats =
  stats_overall_score :: real
  dimension_averages :: "(string \<times> real) list"
  consistency :: "real option"
  performance_trend :: "real option"
  score_range :: "(real \<times> real \<times> real) option"

definition bind_err :: "error + 'a \<Rightarrow> ('a \<Rightarrow> error + 'b) \<Rightarrow> error + 'b" where
  "bind_err x f = (case x of Inl e \<Rightarrow> Inl e | Inr a \<Rightarrow> f a)"

fun collect :: "(error + 'a) list \<Rightarrow> error + 'a list" where
  "collect [] = Inr []"
| "collect (x # xs) =
     (case x of
        Inl e \<Rightarrow> Inl e
      | Inr a \<Rightarrow> (case collect xs of Inl e \<Rightarrow> Inl e | Inr as \<Rightarrow> Inr (a # as)))"

text \<open>\<open>d.get(k, default)\<close>.\<close>

definition get_or :: "pydict \<Rightarrow> string \<Rightarrow> pyval \<Rightarrow> pyval" where
  "get_or d k dflt = (case d k of None \<Rightarrow> dflt | Some v \<Rightarrow> v)"

text \<open>The \<open>statistics\<close> functions raise TypeError on data that is not numeric.\<close>

definition py_nums :: "pyval list \<Rightarrow> error + real list" where
  "py_nums vs = collect (map (\<lambda>v. case num_of v of None \<Rightarrow> Inl TypeError | Some x \<Rightarrow> Inr x) vs)"

text \<open>\<open>statistics.stdev\<close>: the sample standard deviation, on at least two values.\<close>

definition stdev :: "real list \<Rightarrow> real" where
  "stdev xs = sqrt (sum_list (map (\<lambda>x. (x - mean xs)\<^sup>2) xs) / (real (length xs) - 1))"

definition list_min :: "real list \<Rightarrow> real" where
  "list_min xs = foldl min (hd xs) (tl xs)"

definition list_max :: "real list \<Rightarrow> real" where
  "list_max xs = foldl max (hd xs) (tl xs)"

definition overall_of :: "response_data \<Rightarrow> pyval" where
  "overall_of r = get_or (evaluation r) ''overall_score'' (PNum 0)"

definition calculate_performance_statistics :: "response_data list \<Rightarrow> error + perf_stats" where
  "calculate_performance_statistics rs =
     (if rs = [] then
        Inr \<lparr>stats_overall_score = 0, dimension_averages = [], consistency = Some 0,
             performance_trend = None, score_range = None\<rparr>
      else
        bind_err (py_nums (map overall_of rs)) (\<lambda>all_scores.
        bind_err (collect (map (\<lambda>dimension.
                    bind_err (py_nums (map (\<lambda>r. get_or (evaluation r) dimension (overall_of r)) rs))
                      (\<lambda>xs. Inr (dimension, mean xs)))
                    sub_score_fields)) (\<lambda>averages.
          (let overall = mean all_scores;
               consistency_raw =
                 100 - min (if length all_scores > 1 then stdev all_scores else 0) 25;
               n = length all_scores;
               trend =
                 (if n \<ge> 3 then mean (drop (n div 2) all_scores) - mean (take (n div 2) all_scores)
                  else 0)
           in Inr \<lparr>stats_overall_score = py_round2 overall,
                   dimension_averages = map (\<lambda>(k, v). (k, py_round2 v)) averages,
                   consistency = Some (py_round2 consistency_raw),
                   performance_trend = Some (py_round2 trend),
                   score_range = Some (list_min all_scores, list_max all_scores,
                                       list_max all_scores - list_min all_scores)\<rparr>))))"

definition question_categories :: "(string \<times> string) list" where
  "question_categories =
     [(''basic_001'', ''Basic Functions''), (''basic_002'', ''Pivot Tables''),
      (''basic_003'', ''Lookup Functions''), (''basic_004'', ''Data Manipulation''),
      (''basic_005'', ''Basic Functions''), (''inter_001'', ''Data Manipulation''),
      (''inter_002'', ''Lookup Functions''), (''inter_003'', ''Data Manipulation''),
      (''inter_004'', ''Data Manipulation''), (''inter_005'', ''Conditional Logic''),
      (''adv_001'', ''Statistical Analysis''), (''adv_002'', ''Financial Modeling''),
      (''adv_003'', ''Data Manipulation''), (''adv_004'', ''Advanced Functions''),
      (''adv_005'', ''Automation'')]"

text \<open>The per-category score lists, in the order in which the categories first occur.\<close>

fun add_score :: "string \<Rightarrow> pyval \<Rightarrow> (string \<times> pyval list) list \<Rightarrow> (string \<times> pyval list) list" where
  "add_score c s [] = [(c, [s])]"
| "add_score c s ((c', ss) # rest) =
     (if c' = c then (c', ss @ [s]) # rest else (c', ss) # add_score c s rest)"

text \<open>\<open>max(items, key=...)\<close> and \<open>min(items, key=...)\<close> return the first extremal item.\<close>

fun first_max :: "string \<times> real \<Rightarrow> (string \<times> real) list \<Rightarrow> string \<times> real" where
  "first_max best [] = best"
| "first_max best (x # xs) = first_max (if snd x > snd best then x else best) xs"

fun first_min :: "string \<times> real \<Rightarrow> (string \<times> real) list \<Rightarrow> string \<times> real" where
  "first_min best [] = best"
| "first_min best (x # xs) = first_min (if snd x < snd best then x else best) xs"

record category_analysis =
  category_averages :: "(string \<times> real) list"
  strongest_category :: "string \<times> real"
  weakest_category :: "string \<times> real"
  categories_above_threshold :: "string list"
  categories_needing_improvement :: "string list"

definition analyze_category_performance :: "response_data list \<Rightarrow> error + category_analysis" where
  "analyze_category_performance rs =
     (let groups =
            foldl (\<lambda>g r. add_score
                     (case map_of question_categories (question_id r) of
                        None \<Rightarrow> ''General'' | Some c \<Rightarrow> c)
                     (overall_of r) g) [] rs
      in bind_err (collect (map (\<lambda>(c, ss). bind_err (py_nums ss) (\<lambda>xs. Inr (c, py_round2 (mean xs))))
                     groups)) (\<lambda>avgs.
           Inr \<lparr>category_averages = avgs,
                strongest_category =
                  (case avgs of [] \<Rightarrow> (''General'', 0) | x # xs \<Rightarrow> first_max x xs),
                weakest_category =
                  (case avgs of [] \<Rightarrow> (''General'', 0) | x # xs \<Rightarrow> first_min x xs),
                categories_above_threshold = map fst (filter (\<lambda>(c, s). s \<ge> 70) avgs),
                categories_needing_improvement = map fst (filter (\<lambda>(c, s). s < 60) avgs)\<rparr>))"

definition determine_skill_level :: "real \<Rightarrow> SkillAssessment" where
  "determine_skill_level score =
     (if score \<ge> 90 then EXPERT
      else if score \<ge> 80 then ADVANCED_LEVEL
      else if score \<ge> 65 then INTERMEDIATE_LEVEL
      else if score \<ge> 45 then BASIC_LEVEL
      else if score \<ge> 25 then BEGINNER
      else INSUFFICIENT_DATA)"

definition determine_hire_recommendation :: "real \<Rightarrow> perf_stats \<Rightarrow> HireRecommendation" where
  "determine_hire_recommendation score stats =
     (let cons = (case consistency stats of None \<Rightarrow> 0 | Some c \<Rightarrow> c);
          trend = (case performance_trend stats of None \<Rightarrow> 0 | Some t \<Rightarrow> t)
      in if score \<ge> 85 \<and> cons \<ge> 70 then STRONG_HIRE
         else if score \<ge> 75 \<and> cons \<ge> 60 then HIRE
         else if score \<ge> 60 \<and> (cons \<ge> 50 \<or> trend > 5) then CONDITIONAL_HIRE
         else if score \<ge> 40 then NO_HIRE
         else STRONG_NO_HIRE)"

definition get_default_feedback :: "real \<Rightarrow> string" where
  "get_default_feedback score =
     (if score \<ge> 80 then
        ''Demonstrates strong Excel proficiency with good technical knowledge and problem-solving abilities. Continue building advanced skills through practical application.''
      else if score \<ge> 60 then
        ''Shows solid understanding of Excel fundamentals with room for improvement in advanced features. Focus on expanding formula knowledge and data analysis techniques.''
      else
        ''Basic Excel knowledge demonstrated but significant improvement needed. Recommend comprehensive Excel training covering core functions, formulas, and data management.'')"

text \<open>
  \<open>_generate_detailed_feedback\<close> asks the provider for a narrative (the prompt is built from
  the responses and the statistics); when the call raises, the template text stands in.
\<close>

definition generate_detailed_feedback :: "llm_reply \<Rightarrow> perf_stats \<Rightarrow> string" where
  "generate_detailed_feedback narrative stats =
     (case narrative of
        Raises \<Rightarrow> get_default_feedback (stats_overall_score stats)
      | Returns feedback \<Rightarrow> strip feedback)"

definition dimension_get :: "perf_stats \<Rightarrow> string \<Rightarrow> real" where
  "dimension_get stats k = (case map_of (dimension_averages stats) k of None \<Rightarrow> 0 | Some v \<Rightarrow> v)"

definition category_advice :: "string \<Rightarrow> string list" where
  "category_advice c =
     (if c = ''Lookup Functions'' then [''Study VLOOKUP, INDEX-MATCH, and XLOOKUP functions'']
      else if c = ''Pivot Tables'' then [''Practice creating and customizing pivot tables'']
      else if c = ''Data Manipulation'' then [''Learn data cleaning and transformation techniques'']
      else if c = ''Advanced Functions'' then [''Explore array formulas and dynamic functions'']
      else [])"

definition generate_recommendations :: "category_analysis \<Rightarrow> perf_stats \<Rightarrow> error + string list" where
  "generate_recommendations ca stats =
     (case consistency stats of
        None \<Rightarrow> Inl KeyError
      | Some cons \<Rightarrow>
          (let recs =
                 (if stats_overall_score stats < 70
                  then [''Focus on Excel fundamentals including basic formulas and functions'']
                  else [])
               @ (if dimension_get stats ''technical_accuracy'' < 60
                  then [''Practice Excel formula syntax and function usage''] else [])
               @ (if dimension_get stats ''communication_clarity'' < 60
                  then [''Improve ability to explain Excel processes clearly and logically'']
                  else [])
               @ concat (map category_advice (categories_needing_improvement ca))
               @ (if cons < 60
                  then [''Focus on consistent application of Excel knowledge across different scenarios'']
                  else [])
           in Inr (if recs \<noteq> [] then take 5 recs
                   else [''Continue practicing Excel skills in business contexts''])))"

text \<open>
  \<open>list.extend(v)\<close> iterates over \<open>v\<close>: a list gives its elements, a string its characters,
  a dict its keys; anything else raises TypeError. A list or a dict is not hashable and
  raises TypeError as a dict key; \<open>True\<close> and \<open>1\<close> are the same key.
\<close>

fun py_iter :: "pyval \<Rightarrow> error + pyval list" where
  "py_iter (PList xs) = Inr xs"
| "py_iter (PStr s) = Inr (map (\<lambda>c. PStr [c]) s)"
| "py_iter (PDict kvs) = Inr (map PStr (remdups (map fst kvs)))"
| "py_iter PNone = Inl TypeError"
| "py_iter (PBool b) = Inl TypeError"
| "py_iter (PNum x) = Inl TypeError"

fun hashable :: "pyval \<Rightarrow> bool" where
  "hashable (PList xs) = False"
| "hashable (PDict kvs) = False"
| "hashable PNone = True"
| "hashable (PBool b) = True"
| "hashable (PNum x) = True"
| "hashable (PStr s) = True"

fun key_norm :: "pyval \<Rightarrow> pyval" where
  "key_norm (PBool b) = PNum (if b then 1 else 0)"
| "key_norm PNone = PNone"
| "key_norm (PNum x) = PNum x"
| "key_norm (PStr s) = PStr s"
| "key_norm (PList xs) = PList xs"
| "key_norm (PDict kvs) = PDict kvs"

fun count_item :: "pyval \<Rightarrow> (pyval \<times> nat) list \<Rightarrow> (pyval \<times> nat) list" where
  "count_item v [] = [(v, 1)]"
| "count_item v ((k, n) # rest) =
     (if key_norm k = key_norm v then (k, n + 1) # rest else (k, n) # count_item v rest)"

text \<open>
  \<open>_extract_strengths\<close> and \<open>_extract_improvement_areas\<close>: the five most frequent items of
  the lists under \<open>key\<close>, the stable descending sort keeping first occurrences first.
\<close>

definition extract_top :: "string \<Rightarrow> response_data list \<Rightarrow> error + pyval list" where
  "extract_top key rs =
     bind_err (collect (map (\<lambda>r. py_iter (get_or (evaluation r) key (PList []))) rs)) (\<lambda>parts.
       (let items = concat parts in
        if list_all hashable items
        then Inr (map fst (take 5 (sort_key (\<lambda>(k, n). - int n) (foldl (\<lambda>cs v. count_item v cs) [] items))))
        else Inl TypeError))"

definition assess_role_readiness :: "real \<Rightarrow> category_analysis \<Rightarrow> (string \<times> string) list" where
  "assess_role_readiness score ca =
     [(''data_entry'', if score \<ge> 50 then ''Ready'' else ''Needs training''),
      (''financial_analyst'',
         if score \<ge> 70 \<and> ''Financial Modeling'' \<in> set (categories_above_threshold ca) then ''Ready''
         else if score \<ge> 60 then ''Ready with training''
         else ''Needs significant training''),
      (''data_analyst'',
         if score \<ge> 75 \<and> length (categories_above_threshold ca) \<ge> 3 then ''Ready''
         else if score \<ge> 65 then ''Ready with training''
         else ''Needs significant training''),
      (''administrative'', if score \<ge> 55 then ''Ready'' else ''Needs basic training'')]"

definition calculate_percentile :: "real \<Rightarrow> int" where
  "calculate_percentile score =
     (if score \<ge> 90 then 95 else if score \<ge> 80 then 80 else if score \<ge> 70 then 65
      else if score \<ge> 60 then 45 else if score \<ge> 50 then 30 else if score \<ge> 40 then 20
      else 10)"

text \<open>\<open>int(x)\<close> cuts a float towards zero.\<close>

definition py_int :: "real \<Rightarrow> int" where
  "py_int x = (if x \<ge> 0 then \<lfloor>x\<rfloor> else \<lceil>x\<rceil>)"

definition estimate_duration :: "response_data list \<Rightarrow> int" where
  "estimate_duration rs =
     max (py_int (sum_list (map response_time rs) / 60)) (int (length rs) * 2)"

text \<open>
  The entries of \<open>question_scores\<close>; \<open>r["evaluation"]["overall_score"]\<close> raises KeyError when
  the key is missing. No response carries a \<open>difficulty\<close> key, so that entry is the default.
\<close>

definition question_score :: "response_data \<Rightarrow> error + (string \<times> string \<times> pyval \<times> string)" where
  "question_score r =
     (case evaluation r ''overall_score'' of
        None \<Rightarrow> Inl KeyError
      | Some v \<Rightarrow>
          Inr (question_id r,
               (if length (asked_text r) > 100 then take 100 (asked_text r) @ ''...''
                else asked_text r),
               v, ''intermediate''))"

text \<open>
  The final assessment. The keys that only the full assessment has are optional. Left out:
  the executive summary (it formats a float into text), the dates, the version and the
  constant benchmark table.
\<close>

record assessment =
  interview_id :: "string option"
  overall_score :: real
  skill_level_assessment :: SkillAssessment
  hire_recommendation :: HireRecommendation
  category_scores :: "(string \<times> real) list option"
  dimension_scores :: "(string \<times> real) list option"
  question_scores :: "(string \<times> string \<times> pyval \<times> string) list option"
  detailed_feedback :: string
  recommendations :: "string list"
  strengths_summary :: "pyval list"
  improvement_areas :: "pyval list"
  readiness_assessment :: "(string \<times> string) list option"
  statistics :: perf_stats
  percentile_rank :: "int option"
  total_questions :: nat
  interview_duration_minutes :: "int option"

definition get_default_assessment :: "string \<Rightarrow> assessment" where
  "get_default_assessment error_message =
     \<lparr>interview_id = None,
      overall_score = 0,
      skill_level_assessment = INSUFFICIENT_DATA,
      hire_recommendation = NO_HIRE,
      category_scores = None,
      dimension_scores = None,
      question_scores = None,
      detailed_feedback = ''Assessment could not be completed: '' @ error_message,
      recommendations = [''Complete technical assessment required''],
      strengths_summary = [],
      improvement_areas = [PStr ''Technical assessment required''],
      readiness_assessment = None,
      statistics = \<lparr>stats_overall_score = 0, dimension_averages = [], consistency = None,
                     performance_trend = None, score_range = None\<rparr>,
      percentile_rank = None,
      total_questions = 0,
      interview_duration_minutes = None\<rparr>"

text \<open>The body of the \<open>try\<close> block of \<open>generate_final_assessment\<close> for a non-empty list.\<close>

definition try_assess :: "llm_reply \<Rightarrow> string \<Rightarrow> response_data list \<Rightarrow> error + assessment" where
  "try_assess narrative iid rs =
     bind_err (calculate_performance_statistics rs) (\<lambda>stats.
     bind_err (analyze_category_performance rs) (\<lambda>ca.
       (let skill_level = determine_skill_level (stats_overall_score stats);
            hire = determine_hire_recommendation (stats_overall_score stats) stats;
            feedback = generate_detailed_feedback narrative stats
        in bind_err (collect (map question_score rs)) (\<lambda>qscores.
           bind_err (generate_recommendations ca stats) (\<lambda>recs.
           bind_err (extract_top ''strengths'' rs) (\<lambda>strengths.
           bind_err (extract_top ''areas_for_improvement'' rs) (\<lambda>improvements.
             Inr \<lparr>interview_id = Some iid,
                  overall_score = stats_overall_score stats,
                  skill_level_assessment = skill_level,
                  hire_recommendation = hire,
                  category_scores = Some (category_averages ca),
                  dimension_scores = Some (dimension_averages stats),
                  question_scores = Some qscores,
                  detailed_feedback = feedback,
                  recommendations = recs,
                  strengths_summary = strengths,
                  improvement_areas = improvements,
                  readiness_assessment =
                    Some (assess_role_readiness (stats_overall_score stats) ca),
                  statistics = stats,
                  percentile_rank = Some (calculate_percentile (stats_overall_score stats)),
                  total_questions = length rs,
                  interview_duration_minutes = Some (estimate_duration rs)\<rparr>)))))))"

text \<open>
  The text of a caught exception is Python's message for it; the model writes the
  exception's class name in its place.
\<close>

fun error_text :: "error \<Rightarrow> string" where
  "error_text ProviderError = ''ProviderError''"
| "error_text JSONDecodeError = ''JSONDecodeError''"
| "error_text ValueError = ''ValueError''"
| "error_text TypeError = ''TypeError''"
| "error_text KeyError = ''KeyError''"

definition generate_final_assessment :: "llm_reply \<Rightarrow> string \<Rightarrow> response_data list \<Rightarrow> assessment" where
  "generate_final_assessment narrative iid rs =
     (if rs = [] then get_default_assessment ''No responses provided''
      else
        (case try_assess narrative iid rs of
           Inl e \<Rightarrow> get_default_assessment (''Error generating assessment: '' @ error_text e)
         | Inr a \<Rightarrow> a))"

section \<open>conversation\_manager.py: the session state machine\<close>

datatype InterviewStatus = PENDING | IN_PROGRESS | COMPLETED | CANCELLED | PAUSED | EXPIRED

text \<open>
  One entry of the conversation history. The system entry is the text
  \<open>f"Score: {score}/100"\<close>; it is kept as the score it prints.
\<close>

datatype message = Assistant string | User string | SystemScore real

text \<open>
  The session state dict that \<open>start_interview\<close> creates and the state manager stores.
  The candidate's name and position and the time stamps are left out: no decision reads
  them. \<open>current_question\<close> holds the copy made by \<open>question.dict()\<close>.
\<close>

record session =
  session_interview_id :: string
  status :: InterviewStatus
  current_question_index :: nat
  questions_asked :: "string list"
  responses :: "response_data list"
  scores :: "real list"
  current_difficulty :: string
  conversation_history :: "message list"
  current_question :: "question option"
  final_assessment :: "assessment option"

text \<open>
  The three global service objects: the state manager's store, the question bank's list and
  the evaluator. \<open>get_interview_state\<close> is the lookup, \<open>set_interview_state\<close> the update
  (expiry by wall-clock time is outside the model).
\<close>

record world =
  store :: "string \<rightharpoonup> session"
  questions :: "question list"
  evaluator_state :: evaluator

text \<open>What one call takes from outside, beyond its arguments.\<close>

record step_input =
  eval_in :: eval_input
  draw :: nat
  narrative_reply :: llm_reply

datatype outcome =
    Error string
  | Success "question option"
  | Continue pydict question
  | Completed assessment

fun type_value :: "QuestionType \<Rightarrow> string" where
  "type_value FORMULA = ''formula''"
| "type_value DATA_ANALYSIS = ''data_analysis''"
| "type_value PROBLEM_SOLVING = ''problem_solving''"
| "type_value SCENARIO = ''scenario''"
| "type_value PRACTICAL = ''practical''"

definition adjust_difficulty :: "real list \<Rightarrow> string \<Rightarrow> string" where
  "adjust_difficulty scs current =
     (if scs = [] then current
      else
        (let recent_scores = (if length scs \<ge> 3 then last3 scs else scs);
             avg_recent = mean recent_scores
         in if avg_recent \<ge> 85 \<and> current \<noteq> ''advanced'' then
              (if current = ''basic'' then ''intermediate''
               else if current = ''intermediate'' then ''advanced''
               else current)
            else if avg_recent < 40 \<and> current \<noteq> ''basic'' then
              (if current = ''advanced'' then ''intermediate''
               else if current = ''intermediate'' then ''basic''
               else current)
            else current))"

definition should_continue_interview :: "session \<Rightarrow> bool" where
  "should_continue_interview state =
     (let questions_answered = length (responses state); max_questions = 15 in
      if questions_answered < max_questions then
        (if length (scores state) \<ge> 5 then
           (if mean (scores state) < 25 then False else questions_answered < max_questions)
         else questions_answered < max_questions)
      else questions_answered < max_questions)"

text \<open>\<open>_get_next_question\<close> turns an exception of the selector into "no question".\<close>

definition get_next_question :: "question list \<Rightarrow> session \<Rightarrow> nat \<Rightarrow> question option" where
  "get_next_question qs state r =
     (case get_adaptive_question qs (current_difficulty state) (scores state)
             (questions_asked state) r of
        Inl e \<Rightarrow> None
      | Inr q \<Rightarrow> q)"

definition end_interview :: "world \<Rightarrow> llm_reply \<Rightarrow> string \<Rightarrow> session \<Rightarrow> outcome \<times> world" where
  "end_interview w narrative iid state =
     (let fa = generate_final_assessment narrative iid (responses state);
          state' = state\<lparr>status := COMPLETED, final_assessment := Some fa\<rparr>
      in (Completed fa, w\<lparr>store := (store w)(iid \<mapsto> state')\<rparr>))"

definition start_interview :: "world \<Rightarrow> string \<Rightarrow> string \<Rightarrow> nat \<Rightarrow> outcome \<times> world" where
  "start_interview w iid skill_level r =
     (let initial_state =
            \<lparr>session_interview_id = iid, status = IN_PROGRESS, current_question_index = 0,
             questions_asked = [], responses = [], scores = [],
             current_difficulty = skill_level, conversation_history = [],
             current_question = None, final_assessment = None\<rparr>
      in case get_next_question (questions w) initial_state r of
           Some first_question \<Rightarrow>
             (Success (Some first_question),
              w\<lparr>store := (store w)(iid \<mapsto>
                   initial_state\<lparr>current_question := Some first_question,
                                 questions_asked := questions_asked initial_state @ [qid first_question]\<rparr>)\<rparr>)
         | None \<Rightarrow>
             (Error ''Failed to start interview. Please try again.'',
              w\<lparr>store := (store w)(iid \<mapsto> initial_state)\<rparr>))"

text \<open>
  \<open>process_response\<close>. There is one place where the source can raise after it has begun to
  change the state: reading \<open>evaluation["overall_score"]\<close> as a number. That needs a cached
  evaluation without a numeric overall score, which \<open>evaluate_response\<close> never stores; the
  branch gets the handler's result and leaves the world as it was.
\<close>

definition process_response ::
  "(string \<Rightarrow> int) \<Rightarrow> (string \<Rightarrow> pyval option) \<Rightarrow> world \<Rightarrow> step_input \<Rightarrow>
   string \<Rightarrow> string \<Rightarrow> real \<Rightarrow> outcome \<times> world" where
  "process_response py_hash json_loads w inp iid answer rt =
     (case store w iid of
        None \<Rightarrow> (Error ''Interview session not found'', w)
      | Some state \<Rightarrow>
          (case current_question state of
             None \<Rightarrow> (Error ''No active question found'', w)
           | Some cq \<Rightarrow>
               (let (ev, evaluator') =
                      evaluate_response py_hash json_loads (eval_in inp) (evaluator_state w)
                        (question_text cq) answer (current_difficulty state)
                        (type_value (question_type cq))
                in case Option.bind (ev ''overall_score'') num_of of
                     None \<Rightarrow> (Error ''Failed to process response. Please try again.'', w)
                   | Some score \<Rightarrow>
                       (let response_data =
                              \<lparr>question_id = qid cq, asked_text = question_text cq,
                               candidate_response = answer, evaluation = ev, response_time = rt\<rparr>;
                            state1 = state
                              \<lparr>responses := responses state @ [response_data],
                               scores := scores state @ [score],
                               current_question_index := current_question_index state + 1,
                               conversation_history := conversation_history state @
                                 [Assistant (question_text cq), User answer, SystemScore score]\<rparr>;
                            qs' = update_question_stats (questions w) (qid cq) score rt;
                            new_difficulty =
                              adjust_difficulty (scores state1) (current_difficulty state1);
                            state2 = state1\<lparr>current_difficulty := new_difficulty\<rparr>;
                            w' = w\<lparr>questions := qs', evaluator_state := evaluator'\<rparr>
                        in if should_continue_interview state2 then
                             (case get_next_question qs' state2 (draw inp) of
                                Some next_question \<Rightarrow>
                                  (Continue ev next_question,
                                   w'\<lparr>store := (store w)(iid \<mapsto>
                                        state2\<lparr>current_question := Some next_question,
                                               questions_asked :=
                                                 questions_asked state2 @ [qid next_question]\<rparr>)\<rparr>)
                              | None \<Rightarrow> end_interview w' (narrative_reply inp) iid state2)
                           else end_interview w' (narrative_reply inp) iid state2))))"

definition pause_interview :: "world \<Rightarrow> string \<Rightarrow> outcome \<times> world" where
  "pause_interview w iid =
     (case store w iid of
        None \<Rightarrow> (Error ''Interview not found'', w)
      | Some state \<Rightarrow>
          if status state \<noteq> IN_PROGRESS then (Error ''Interview is not in progress'', w)
          else (Success None, w\<lparr>store := (store w)(iid \<mapsto> state\<lparr>status := PAUSED\<rparr>)\<rparr>))"

definition resume_interview :: "world \<Rightarrow> string \<Rightarrow> outcome \<times> world" where
  "resume_interview w iid =
     (case store w iid of
        None \<Rightarrow> (Error ''Interview not found'', w)
      | Some state \<Rightarrow>
          if status state \<noteq> PAUSED then (Error ''Interview is not paused'', w)
          else (Success (current_question state),
                w\<lparr>store := (store w)(iid \<mapsto> state\<lparr>status := IN_PROGRESS\<rparr>)\<rparr>))"

text \<open>
  The services as the process starts them: an empty store, the built-in questions, an empty
  cache. A run is a sequence of calls on the conversation manager.
\<close>

definition initial_world :: world where
  "initial_world =
     \<lparr>store = Map.empty, questions = load_questions,
      evaluator_state = \<lparr>evaluation_cache = Map.empty, evaluation_count = 0,
                         average_evaluation_time = 0\<rparr>\<rparr>"

datatype call =
    Start string string nat
  | Respond step_input string string real
  | Pause string
  | Resume string

fun do_call :: "(string \<Rightarrow> int) \<Rightarrow> (string \<Rightarrow> pyval option) \<Rightarrow> world \<Rightarrow> call \<Rightarrow> outcome \<times> world" where
  "do_call py_hash json_loads w (Start iid skill_level r) = start_interview w iid skill_level r"
| "do_call py_hash json_loads w (Respond inp iid answer rt) =
     process_response py_hash json_loads w inp iid answer rt"
| "do_call py_hash json_loads w (Pause iid) = pause_interview w iid"
| "do_call py_hash json_loads w (Resume iid) = resume_interview w iid"

fun run :: "(string \<Rightarrow> int) \<Rightarrow> (string \<Rightarrow> pyval option) \<Rightarrow> world \<Rightarrow> call list \<Rightarrow> world" where
  "run py_hash json_loads w [] = w"
| "run py_hash json_loads w (c # cs) =
     run py_hash json_loads (snd (do_call py_hash json_loads w c)) cs"

section \<open>The specification's rules, as the specification words them\<close>

text \<open>The hire rule: the first matching row decides.\<close>

fun first_match :: "(bool \<times> 'a) list \<Rightarrow> 'a \<Rightarrow> 'a" where
  "first_match [] d = d"
| "first_match ((c, r) # rest) d = (if c then r else first_match rest d)"

definition spec_hire_recommendation :: "real \<Rightarrow> real \<Rightarrow> real \<Rightarrow> HireRecommendation" where
  "spec_hire_recommendation score cons trend =
     first_match
       [(score \<ge> 85 \<and> cons \<ge> 70, STRONG_HIRE),
        (score \<ge> 75 \<and> cons \<ge> 60, HIRE),
        (score \<ge> 60 \<and> (cons \<ge> 50 \<or> trend > 5), CONDITIONAL_HIRE),
        (score \<ge> 40, NO_HIRE)]
       STRONG_NO_HIRE"

text \<open>The termination policy: continue below 15 answers unless 5 or more average below 25.\<close>

definition spec_should_continue :: "nat \<Rightarrow> real list \<Rightarrow> bool" where
  "spec_should_continue questions_answered scs =
     (questions_answered < 15 \<and> \<not> (length scs \<ge> 5 \<and> mean scs < 25))"

text \<open>
  The selector as the specification words it: one tier up for a mean of 85 or more (capped at
  advanced), one tier down for a mean below 50 (floored at basic), the current tier between.
\<close>

fun tier_above :: "QuestionDifficulty \<Rightarrow> QuestionDifficulty" where
  "tier_above BASIC = INTERMEDIATE"
| "tier_above INTERMEDIATE = ADVANCED"
| "tier_above ADVANCED = ADVANCED"

fun tier_below :: "QuestionDifficulty \<Rightarrow> QuestionDifficulty" where
  "tier_below BASIC = BASIC"
| "tier_below INTERMEDIATE = BASIC"
| "tier_below ADVANCED = INTERMEDIATE"

definition spec_target :: "QuestionDifficulty \<Rightarrow> real list \<Rightarrow> QuestionDifficulty" where
  "spec_target current scs =
     (let m = mean (last3 scs) in
      if m \<ge> 85 then tier_above current
      else if m < 50 then tier_below current
      else current)"

text \<open>
  An evaluation whose score fields, where present, hold numbers: what the evaluation
  pipeline produces.
\<close>

definition numeric_evaluation :: "pydict \<Rightarrow> bool" where
  "numeric_evaluation ev =
     list_all (\<lambda>k. case ev k of None \<Rightarrow> True | Some v \<Rightarrow> num_of v \<noteq> None) score_fields"

text \<open>The hire rule with every consistency test taken as passed.\<close>

definition score_only_recommendation :: "real \<Rightarrow> HireRecommendation" where
  "score_only_recommendation score =
     (if score \<ge> 85 then STRONG_HIRE
      else if score \<ge> 75 then HIRE
      else if score \<ge> 60 then CONDITIONAL_HIRE
      else if score \<ge> 40 then NO_HIRE
      else STRONG_NO_HIRE)"

definition two_responses :: "response_data list" where
  "two_responses =
     [\<lparr>question_id = ''inter_001'', asked_text = ''q1'', candidate_response = ''a1'',
       evaluation = [''overall_score'' \<mapsto> PNum 90, ''technical_accuracy'' \<mapsto> PNum 90],
       response_time = 30\<rparr>,
      \<lparr>question_id = ''adv_001'', asked_text = ''q2'', candidate_response = ''a2'',
       evaluation = [''overall_score'' \<mapsto> PNum 20], response_time = 30\<rparr>]"

text \<open>
  The five sub-scores of an evaluation, when all five are there and numeric, and the two
  candidate laws for its overall score: the plain mean that the services compute, and the
  weighted mean of the specification (weights 0.35, 0.15, 0.25, 0.15, 0.10).
\<close>

definition sub_scores :: "pydict \<Rightarrow> real list option" where
  "sub_scores e = those (map (\<lambda>f. Option.bind (e f) num_of) sub_score_fields)"

definition mean_consistent :: "pydict \<Rightarrow> bool" where
  "mean_consistent e =
     (case sub_scores e of
        None \<Rightarrow> False
      | Some xs \<Rightarrow> e ''overall_score'' = Some (PNum (py_round2 (sum_list xs / 5))))"

definition spec_weights :: "real list" where
  "spec_weights = [35 / 100, 15 / 100, 25 / 100, 15 / 100, 10 / 100]"

definition weighted_consistent :: "pydict \<Rightarrow> bool" where
  "weighted_consistent e =
     (case sub_scores e of
        None \<Rightarrow> False
      | Some xs \<Rightarrow>
          e ''overall_score'' = Some (PNum (py_round2 (sum_list (map2 (*) spec_weights xs)))))"

text \<open>A key that holds a number between 0 and 100.\<close>

definition in_range :: "pydict \<Rightarrow> string \<Rightarrow> bool" where
  "in_range e k = (case Option.bind (e k) num_of of None \<Rightarrow> False | Some x \<Rightarrow> 0 \<le> x \<and> x \<le> 100)"

text \<open>A key that holds a number.\<close>

definition has_number :: "pydict \<Rightarrow> string \<Rightarrow> bool" where
  "has_number e k = (Option.bind (e k) num_of \<noteq> None)"

text \<open>
  A worked example. The provider answers with a JSON text that reports an overall score of
  35; \<open>example_json_loads\<close> parses that one text. The answer "no idea" triggers none of
  the heuristics' indicators and has two words, so the only adjustment is the penalty for
  an answer shorter than 20 words. \<open>example_hash\<close> stands for Python's \<open>hash\<close>.
\<close>

definition example_reply :: string where
  \<open>example_reply = ''{"technical_accuracy": 100, "communication_clarity": 0, "problem_solving_approach": 0, "completeness": 0, "efficiency": 0, "overall_score": 35, "feedback": "ok", "strengths": [], "areas_for_improvement": [], "next_difficulty_level": "intermediate"}''\<close>

definition example_parsed :: pyval where
  "example_parsed =
     PDict [(''technical_accuracy'', PNum 100), (''communication_clarity'', PNum 0),
            (''problem_solving_approach'', PNum 0), (''completeness'', PNum 0),
            (''efficiency'', PNum 0), (''overall_score'', PNum 35), (''feedback'', PStr ''ok''),
            (''strengths'', PList []), (''areas_for_improvement'', PList []),
            (''next_difficulty_level'', PStr ''intermediate'')]"

definition example_json_loads :: "string \<Rightarrow> pyval option" where
  "example_json_loads s = (if s = example_reply then Some example_parsed else None)"

definition example_hash :: "string \<Rightarrow> int" where
  "example_hash s = int (length s)"

definition no_idea_analysis :: local_analysis where
  "no_idea_analysis =
     \<lparr>response_length = 7, word_count = 2, excel_functions_mentioned = [],
      excel_concepts_mentioned = [], keyword_density = 0,
      technical_indicators =
        \<lparr>mentions_formulas = False, mentions_steps = False, mentions_specific_functions = False,
         mentions_cell_references = False, mentions_ranges = False\<rparr>,
      communication_indicators =
        \<lparr>uses_explanation = False, provides_examples = False, structured_response = False,
         appropriate_length = False\<rparr>,
      completeness_indicators =
        \<lparr>addresses_how = False, addresses_what = False, addresses_when = False,
         provides_alternatives = False\<rparr>\<rparr>"

definition example_input :: eval_input where
  "example_input = \<lparr>local_result = no_idea_analysis, reply = Returns example_reply, elapsed = 1\<rparr>"

definition empty_evaluator :: evaluator where
  "empty_evaluator = \<lparr>evaluation_cache = Map.empty, evaluation_count = 0, average_evaluation_time = 0\<rparr>"

text \<open>Every cached evaluation obeys the plain-mean law.\<close>

definition cache_ok :: "evaluator \<Rightarrow> bool" where
  "cache_ok ev = (\<forall>e\<in>ran (evaluation_cache ev). mean_consistent e)"

text \<open>
  The session at the point where \<open>process_response\<close> decides whether to continue: the
  answer is recorded and the difficulty adjusted.
\<close>

definition answered :: "session \<Rightarrow> question \<Rightarrow> string \<Rightarrow> pydict \<Rightarrow> real \<Rightarrow> real \<Rightarrow> session" where
  "answered state cq answer ev score rt =
     state
       \<lparr>responses := responses state @
          [\<lparr>question_id = qid cq, asked_text = question_text cq, candidate_response = answer,
            evaluation = ev, response_time = rt\<rparr>],
        scores := scores state @ [score],
        current_question_index := current_question_index state + 1,
        conversation_history := conversation_history state @
          [Assistant (question_text cq), User answer, SystemScore score],
        current_difficulty := adjust_difficulty (scores state @ [score]) (current_difficulty state)\<rparr>"

text \<open>No stored session has asked a question twice.\<close>

definition asked_distinct :: "world \<Rightarrow> bool" where
  "asked_distinct w = (\<forall>s\<in>ran (store w). distinct (questions_asked s))"

text \<open>
  A worked run: session \<open>s1\<close> starts at intermediate (the draw 0 picks the first
  intermediate question), is paused, and then receives the answer "no idea".
\<close>

definition started_session :: session where
  "started_session =
     \<lparr>session_interview_id = ''s1'', status = IN_PROGRESS, current_question_index = 0,
      questions_asked = [''inter_001''], responses = [], scores = [],
      current_difficulty = ''intermediate'', conversation_history = [],
      current_question = Some (load_questions ! 5), final_assessment = None\<rparr>"

definition paused_world :: world where
  "paused_world = initial_world\<lparr>store := [''s1'' \<mapsto> started_session\<lparr>status := PAUSED\<rparr>]\<rparr>"

definition example_step :: step_input where
  "example_step = \<lparr>eval_in = example_input, draw = 0, narrative_reply = Raises\<rparr>"

text \<open>
  A second session \<open>s2\<close>, started like \<open>s1\<close>: both are asked the first intermediate
  question.
\<close>

definition second_session :: session where
  "second_session = started_session\<lparr>session_interview_id := ''s2''\<rparr>"

definition two_sessions :: world where
  "two_sessions =
     initial_world\<lparr>store := [''s1'' \<mapsto> started_session, ''s2'' \<mapsto> second_session]\<rparr>"

section \<open>Hire recommendation\<close>

text \<open>
  Claim C9. For every overall score, consistency and trend, the recommendation of
  \<open>_determine_hire_recommendation\<close> is the one of the first matching rule: strong hire for a
  score of 85 with consistency 70, hire for 75 with 60, conditional hire for 60 with
  consistency 50 or a trend above 5, no hire for 40, strong no hire otherwise.
\<close>

theorem hire_recommendation_first_match:
  "determine_hire_recommendation score
     (stats\<lparr>consistency := Some cons, performance_trend := Some trend\<rparr>)
   = spec_hire_recommendation score cons trend"
  by (simp add: determine_hire_recommendation_def spec_hire_recommendation_def)

section \<open>Termination policy\<close>

text \<open>
  Claim C5. \<open>_should_continue_interview\<close> continues exactly when fewer than 15 questions have
  been answered and it is not the case that at least 5 scores are recorded with a mean
  below 25; so a session with 5 answers that average below 25 stops.
\<close>

theorem should_continue_policy:
  "should_continue_interview state
     = spec_should_continue (length (responses state)) (scores state)
   \<and> (length (responses state) = 5 \<and> length (scores state) = 5 \<and> mean (scores state) < 25
        \<longrightarrow> \<not> should_continue_interview state)"
  by (simp add: should_continue_interview_def spec_should_continue_def Let_def)

theorem should_continue_policy_witness:
  "length (responses
      \<lparr>session_interview_id = ''s'', status = IN_PROGRESS, current_question_index = 5,
       questions_asked = [''basic_001''],
       responses = replicate 5 \<lparr>question_id = ''basic_001'', asked_text = ''q'',
                     candidate_response = ''a'', evaluation = Map.empty, response_time = 0\<rparr>,
       scores = [20, 20, 20, 20, 20],
       current_difficulty = ''basic'', conversation_history = [], current_question = None,
       final_assessment = None\<rparr>) = 5
   \<and> length (scores
      \<lparr>session_interview_id = ''s'', status = IN_PROGRESS, current_question_index = 5,
       questions_asked = [''basic_001''],
       responses = replicate 5 \<lparr>question_id = ''basic_001'', asked_text = ''q'',
                     candidate_response = ''a'', evaluation = Map.empty, response_time = 0\<rparr>,
       scores = [20, 20, 20, 20, 20],
       current_difficulty = ''basic'', conversation_history = [], current_question = None,
       final_assessment = None\<rparr>) = 5
   \<and> mean (scores
      \<lparr>session_interview_id = ''s'', status = IN_PROGRESS, current_question_index = 5,
       questions_asked = [''basic_001''],
       responses = replicate 5 \<lparr>question_id = ''basic_001'', asked_text = ''q'',
                     candidate_response = ''a'', evaluation = Map.empty, response_time = 0\<rparr>,
       scores = [20, 20, 20, 20, 20],
       current_difficulty = ''basic'', conversation_history = [], current_question = None,
       final_assessment = None\<rparr>) < 25
   \<and> \<not> should_continue_interview
      \<lparr>session_interview_id = ''s'', status = IN_PROGRESS, current_question_index = 5,
       questions_asked = [''basic_001''],
       responses = replicate 5 \<lparr>question_id = ''basic_001'', asked_text = ''q'',
                     candidate_response = ''a'', evaluation = Map.empty, response_time = 0\<rparr>,
       scores = [20, 20, 20, 20, 20],
       current_difficulty = ''basic'', conversation_history = [], current_question = None,
       final_assessment = None\<rparr>"
  using should_continue_policy
    [of "\<lparr>session_interview_id = ''s'', status = IN_PROGRESS, current_question_index = 5,
       questions_asked = [''basic_001''],
       responses = replicate 5 \<lparr>question_id = ''basic_001'', asked_text = ''q'',
                     candidate_response = ''a'', evaluation = Map.empty, response_time = 0\<rparr>,
       scores = [20, 20, 20, 20, 20],
       current_difficulty = ''basic'', conversation_history = [], current_question = None,
       final_assessment = None\<rparr>"]
  by (simp add: mean_def spec_should_continue_def)

section \<open>Empty input of the aggregator\<close>

text \<open>
  Claim C7. \<open>generate_final_assessment\<close> on an empty list of responses returns the default
  assessment, without raising: its skill level is \<open>insufficient_data\<close> and its overall score
  is 0.
\<close>

theorem empty_assessment:
  "generate_final_assessment narrative iid [] = get_default_assessment ''No responses provided''
   \<and> skill_level_assessment (generate_final_assessment narrative iid []) = INSUFFICIENT_DATA
   \<and> overall_score (generate_final_assessment narrative iid []) = 0"
  by (simp add: generate_final_assessment_def get_default_assessment_def)

section \<open>Adaptive selector\<close>

lemma recent_scores_last3: "(if length scs \<ge> 3 then last3 scs else scs) = last3 scs"
  by (simp add: last3_def)

text \<open>
  Claim C2, as stated, fails: with one prior score of 90 and the current tier basic, the
  selector's target is advanced, two tiers up, where the claim has intermediate.
\<close>

theorem selector_target_counterexample:
  "target_difficulty ''basic'' [90] \<noteq> Inr (spec_target BASIC [90])"
  by (simp add: target_difficulty_def spec_target_def mean_def last3_def)

text \<open>
  Claim C2, amended. With at least one prior score and \<open>m\<close> the mean of the last three, the
  target tier of \<open>get_adaptive_question\<close> is advanced for \<open>m \<ge> 85\<close>, intermediate for
  \<open>70 \<le> m < 85\<close>, the current tier for \<open>50 \<le> m < 70\<close> and one tier below the current
  one (floored at basic) for \<open>m < 50\<close>. The tier that \<open>_adjust_difficulty\<close> stores in the
  session moves one tier up (capped at advanced) for \<open>m \<ge> 85\<close>, one tier down (floored at
  basic) for \<open>m < 40\<close> and stays otherwise.
\<close>

theorem selector_target:
  "scs \<noteq> [] \<Longrightarrow>
   target_difficulty (difficulty_value current) scs
     = Inr (let m = mean (last3 scs) in
            if m \<ge> 85 then ADVANCED
            else if m \<ge> 70 then INTERMEDIATE
            else if m \<ge> 50 then current
            else tier_below current)
   \<and> adjust_difficulty scs (difficulty_value current)
     = difficulty_value (let m = mean (last3 scs) in
                         if m \<ge> 85 then tier_above current
                         else if m < 40 then tier_below current
                         else current)"
  by (cases current)
     (simp_all add: target_difficulty_def adjust_difficulty_def recent_scores_last3 Let_def
        difficulty_order_def to_difficulty_def)

theorem selector_target_witness:
  "[90, 88, 95] \<noteq> ([] :: real list)
   \<and> target_difficulty ''basic'' [90, 88, 95] = Inr ADVANCED
   \<and> adjust_difficulty [90, 88, 95] ''basic'' = ''intermediate''"
  using selector_target [of "[90, 88, 95]" BASIC]
  by (simp add: mean_def last3_def)

section \<open>Consistency statistic\<close>

lemma round_half_even_lower: "of_int a \<le> y \<Longrightarrow> a \<le> round_half_even y"
proof -
  assume "of_int a \<le> y"
  then have "a \<le> \<lfloor>y\<rfloor>" by (simp add: le_floor_iff)
  then show ?thesis by (simp add: round_half_even_def Let_def)
qed

lemma round_half_even_upper: "y \<le> of_int b \<Longrightarrow> round_half_even y \<le> b"
proof -
  assume h: "y \<le> of_int b"
  then have fb: "\<lfloor>y\<rfloor> \<le> b" by (simp add: floor_le_iff)
  show ?thesis
  proof (cases "y = of_int \<lfloor>y\<rfloor>")
    case True
    then have "y - of_int \<lfloor>y\<rfloor> = 0" by simp
    then show ?thesis using fb by (simp add: round_half_even_def Let_def)
  next
    case False
    then have "of_int \<lfloor>y\<rfloor> < y" using of_int_floor_le [of y] by linarith
    then have "of_int \<lfloor>y\<rfloor> < (of_int b :: real)" using h by linarith
    then have "\<lfloor>y\<rfloor> < b" by simp
    then show ?thesis by (simp add: round_half_even_def Let_def)
  qed
qed

lemma py_round2_bounds:
  assumes "of_int a / 100 \<le> x" and "x \<le> of_int b / 100"
  shows "of_int a / 100 \<le> py_round2 x \<and> py_round2 x \<le> of_int b / 100"
proof -
  have "of_int a \<le> x * 100" and "x * 100 \<le> of_int b" using assms by (simp_all add: field_simps)
  then have "a \<le> round_half_even (x * 100)" and "round_half_even (x * 100) \<le> b"
    by (simp_all add: round_half_even_lower round_half_even_upper)
  then have "(of_int a :: real) \<le> of_int (round_half_even (x * 100))"
    and "(of_int (round_half_even (x * 100)) :: real) \<le> of_int b"
    by simp_all
  then show ?thesis by (simp add: py_round2_def divide_right_mono)
qed

lemma stdev_nonneg: "0 \<le> stdev xs"
proof (cases "length xs \<le> 1")
  case True
  then have "length xs = 0 \<or> length xs = 1" by linarith
  then show ?thesis by (auto simp add: stdev_def)
next
  case False
  have "0 \<le> sum_list (map (\<lambda>x. (x - mean xs)\<^sup>2) xs)"
    by (rule sum_list_nonneg) auto
  moreover have "0 < real (length xs) - 1" using False by simp
  ultimately show ?thesis by (simp add: stdev_def)
qed

lemma consistency_raw_bounds:
  "75 \<le> 100 - min (if length xs > 1 then stdev xs else 0) 25
   \<and> 100 - min (if length xs > 1 then stdev xs else 0) 25 \<le> (100 :: real)"
  using stdev_nonneg [of xs] by (simp add: min_def)

lemma consistency_rounded_bounds:
  "75 \<le> py_round2 (100 - min (if length xs > 1 then stdev xs else 0) 25)
   \<and> py_round2 (100 - min (if length xs > 1 then stdev xs else 0) 25) \<le> 100"
  using py_round2_bounds [of 7500 "100 - min (if length xs > 1 then stdev xs else 0) 25" 10000]
    consistency_raw_bounds [of xs]
  by simp

lemma collect_map_Inr:
  "(\<And>x. x \<in> set xs \<Longrightarrow> \<exists>a. f x = Inr a) \<Longrightarrow> \<exists>as. collect (map f xs) = Inr as \<and> length as = length xs"
proof (induction xs)
  case Nil
  then show ?case by simp
next
  case (Cons x xs)
  obtain a where a: "f x = Inr a" using Cons.prems by auto
  obtain as where as: "collect (map f xs) = Inr as" "length as = length xs"
    using Cons.IH Cons.prems by auto
  show ?case using a as by simp
qed

lemma collect_length: "collect xs = Inr as \<Longrightarrow> length as = length xs"
  by (induction xs arbitrary: as) (auto split: sum.splits)

lemma py_nums_numeric:
  "(\<And>v. v \<in> set vs \<Longrightarrow> num_of v \<noteq> None) \<Longrightarrow> \<exists>xs. py_nums vs = Inr xs \<and> length xs = length vs"
  unfolding py_nums_def
  by (rule collect_map_Inr) (auto split: option.splits)

lemma py_nums_length: "py_nums vs = Inr xs \<Longrightarrow> length xs = length vs"
  unfolding py_nums_def using collect_length by fastforce

lemma numeric_evaluation_field:
  "numeric_evaluation ev \<Longrightarrow> k \<in> set score_fields \<Longrightarrow> ev k = Some v \<Longrightarrow> num_of v \<noteq> None"
  by (auto simp add: numeric_evaluation_def list_all_iff split: option.splits)

lemma numeric_overall_of:
  "numeric_evaluation (evaluation r) \<Longrightarrow> num_of (overall_of r) \<noteq> None"
proof (cases "evaluation r ''overall_score''")
  case None
  then show ?thesis by (simp add: overall_of_def get_or_def)
next
  case (Some v)
  assume "numeric_evaluation (evaluation r)"
  then have "num_of v \<noteq> None"
    using Some numeric_evaluation_field [of "evaluation r" "''overall_score''" v]
    by (simp add: score_fields_def)
  then show ?thesis using Some by (simp add: overall_of_def get_or_def)
qed

lemma numeric_dimension:
  assumes "numeric_evaluation (evaluation r)" and "k \<in> set sub_score_fields"
  shows "num_of (get_or (evaluation r) k (overall_of r)) \<noteq> None"
proof (cases "evaluation r k")
  case None
  then show ?thesis using numeric_overall_of [OF assms(1)] by (simp add: get_or_def)
next
  case (Some v)
  have "k \<in> set score_fields" using assms(2) by (simp add: score_fields_def)
  then have "num_of v \<noteq> None"
    using Some numeric_evaluation_field [OF assms(1)] by blast
  then show ?thesis using Some by (simp add: get_or_def)
qed

lemma statistics_returns:
  assumes "rs \<noteq> []" and "list_all (\<lambda>r. numeric_evaluation (evaluation r)) rs"
  shows "\<exists>st. calculate_performance_statistics rs = Inr st"
proof -
  have num: "\<And>r. r \<in> set rs \<Longrightarrow> numeric_evaluation (evaluation r)"
    using assms(2) by (simp add: list_all_iff)
  obtain xs where xs: "py_nums (map overall_of rs) = Inr xs"
    using py_nums_numeric [of "map overall_of rs"] num numeric_overall_of by auto
  have "\<exists>as. collect (map (\<lambda>dimension.
            bind_err (py_nums (map (\<lambda>r. get_or (evaluation r) dimension (overall_of r)) rs))
              (\<lambda>xs. Inr (dimension, mean xs))) sub_score_fields) = Inr as
          \<and> length as = length sub_score_fields"
  proof (rule collect_map_Inr)
    fix k assume k: "k \<in> set sub_score_fields"
    obtain ys where "py_nums (map (\<lambda>r. get_or (evaluation r) k (overall_of r)) rs) = Inr ys"
      using py_nums_numeric [of "map (\<lambda>r. get_or (evaluation r) k (overall_of r)) rs"]
        num numeric_dimension [OF _ k] by auto
    then show "\<exists>a. bind_err (py_nums (map (\<lambda>r. get_or (evaluation r) k (overall_of r)) rs))
                     (\<lambda>xs. Inr (k, mean xs)) = Inr a"
      by (simp add: bind_err_def)
  qed
  then obtain as where "collect (map (\<lambda>dimension.
            bind_err (py_nums (map (\<lambda>r. get_or (evaluation r) dimension (overall_of r)) rs))
              (\<lambda>xs. Inr (dimension, mean xs))) sub_score_fields) = Inr as" by blast
  then show ?thesis using assms(1) xs
    by (simp add: calculate_performance_statistics_def bind_err_def Let_def)
qed

lemma statistics_consistency:
  assumes "rs \<noteq> []" and "calculate_performance_statistics rs = Inr st"
  shows "\<exists>xs. py_nums (map overall_of rs) = Inr xs
          \<and> consistency st = Some (py_round2 (100 - min (if length xs > 1 then stdev xs else 0) 25))"
proof (cases "py_nums (map overall_of rs)")
  case (Inl e)
  then show ?thesis using assms
    by (simp add: calculate_performance_statistics_def bind_err_def)
next
  case (Inr xs)
  show ?thesis
  proof (cases "collect (map (\<lambda>dimension.
            bind_err (py_nums (map (\<lambda>r. get_or (evaluation r) dimension (overall_of r)) rs))
              (\<lambda>xs. Inr (dimension, mean xs))) sub_score_fields)")
    case (Inl e)
    then show ?thesis using assms Inr
      by (simp add: calculate_performance_statistics_def bind_err_def)
  next
    case (Inr as)
    then show ?thesis using assms \<open>py_nums (map overall_of rs) = Inr xs\<close>
      by (auto simp add: calculate_performance_statistics_def bind_err_def Let_def)
  qed
qed

lemma hire_by_score_alone:
  "consistency st = Some c \<Longrightarrow> 75 \<le> c \<Longrightarrow>
   determine_hire_recommendation score st = score_only_recommendation score"
  by (simp add: determine_hire_recommendation_def score_only_recommendation_def)

text \<open>
  Claim C10. For a non-empty list of responses with numeric scores,
  \<open>_calculate_performance_statistics\<close> returns, and its consistency is 100 minus the smaller
  of the standard deviation of the overall scores (0 for fewer than two) and 25, rounded to
  two decimals; both the unrounded and the rounded value lie in [75, 100]. So every
  consistency test of the hire rule passes and the recommendation is a function of the
  overall score alone.
\<close>

theorem consistency_range:
  assumes "rs \<noteq> []" and "list_all (\<lambda>r. numeric_evaluation (evaluation r)) rs"
  shows "\<exists>st xs c. calculate_performance_statistics rs = Inr st
           \<and> py_nums (map overall_of rs) = Inr xs
           \<and> consistency st = Some c
           \<and> c = py_round2 (100 - min (if length xs > 1 then stdev xs else 0) 25)
           \<and> 75 \<le> 100 - min (if length xs > 1 then stdev xs else 0) 25
           \<and> 100 - min (if length xs > 1 then stdev xs else 0) 25 \<le> 100
           \<and> 75 \<le> c \<and> c \<le> 100
           \<and> (\<forall>score. determine_hire_recommendation score st = score_only_recommendation score)"
proof -
  obtain st where st: "calculate_performance_statistics rs = Inr st"
    using statistics_returns [OF assms] by blast
  obtain xs where xs: "py_nums (map overall_of rs) = Inr xs"
    and c: "consistency st = Some (py_round2 (100 - min (if length xs > 1 then stdev xs else 0) 25))"
    using statistics_consistency [OF assms(1) st] by blast
  show ?thesis
    using st xs c consistency_raw_bounds [of xs] consistency_rounded_bounds [of xs]
      hire_by_score_alone [OF c]
    by blast
qed

theorem consistency_range_witness:
  "two_responses \<noteq> [] \<and> list_all (\<lambda>r. numeric_evaluation (evaluation r)) two_responses
   \<and> (\<exists>st c. calculate_performance_statistics two_responses = Inr st
         \<and> consistency st = Some c \<and> 75 \<le> c \<and> c \<le> 100
         \<and> determine_hire_recommendation 55 st = NO_HIRE)"
proof -
  have h1: "two_responses \<noteq> []" by (simp add: two_responses_def)
  have h2: "list_all (\<lambda>r. numeric_evaluation (evaluation r)) two_responses"
    by (simp add: two_responses_def numeric_evaluation_def score_fields_def sub_score_fields_def)
  have "score_only_recommendation 55 = NO_HIRE" by (simp add: score_only_recommendation_def)
  then show ?thesis using h1 h2 consistency_range [OF h1 h2] by metis
qed

section \<open>Overall score\<close>

lemma butlast_score_fields: "butlast score_fields = sub_score_fields"
  by (simp add: score_fields_def)

lemma length_sub_score_fields: "length sub_score_fields = 5"
  by (simp add: sub_score_fields_def)

lemma overall_not_sub_score: "''overall_score'' \<notin> set sub_score_fields"
  by (simp add: sub_score_fields_def)

lemma those_map_cong:
  "(\<And>x. x \<in> set xs \<Longrightarrow> f x = g x) \<Longrightarrow> those (map f xs) = those (map g xs)"
  by (induction xs) (auto split: option.splits)

lemma sub_scores_update:
  "k \<notin> set sub_score_fields \<Longrightarrow> sub_scores (e(k \<mapsto> v)) = sub_scores e"
  unfolding sub_scores_def by (rule those_map_cong) auto

lemma those_length: "those xs = Some ys \<Longrightarrow> length ys = length xs"
  by (induction xs arbitrary: ys) (auto split: option.splits)

lemma lookup_sum:
  "those (map (\<lambda>f. Option.bind (d f) num_of) fs) = Some xs \<Longrightarrow>
   \<exists>vs. lookup_all fs d = Inr vs \<and> py_sum vs = Inr (sum_list xs) \<and> length vs = length fs"
proof (induction fs arbitrary: xs)
  case Nil
  then show ?case by simp
next
  case (Cons f fs)
  from Cons.prems obtain x xs' where x: "Option.bind (d f) num_of = Some x"
    and xs': "those (map (\<lambda>f. Option.bind (d f) num_of) fs) = Some xs'" and eq: "xs = x # xs'"
    by (auto split: option.splits)
  from x obtain v where v: "d f = Some v" "num_of v = Some x"
    by (cases "d f") auto
  from Cons.IH [OF xs'] obtain vs where "lookup_all fs d = Inr vs"
    "py_sum vs = Inr (sum_list xs')" "length vs = length fs" by blast
  then show ?case using v eq by simp
qed

lemma those_in_range:
  "(\<And>f. f \<in> set fs \<Longrightarrow> in_range d f) \<Longrightarrow>
   \<exists>xs. those (map (\<lambda>f. Option.bind (d f) num_of) fs) = Some xs"
proof (induction fs)
  case Nil
  then show ?case by simp
next
  case (Cons f fs)
  then obtain xs where "those (map (\<lambda>f. Option.bind (d f) num_of) fs) = Some xs" by auto
  moreover have "in_range d f" using Cons.prems by simp
  then obtain x where "Option.bind (d f) num_of = Some x"
    by (auto simp add: in_range_def split: option.splits)
  ultimately show ?case by simp
qed

lemma in_range_update_other: "k \<noteq> f \<Longrightarrow> in_range (e(f \<mapsto> v)) k = in_range e k"
  by (simp add: in_range_def)

lemma in_range_update_same: "0 \<le> x \<Longrightarrow> x \<le> 100 \<Longrightarrow> in_range (e(f \<mapsto> PNum x)) f"
  by (simp add: in_range_def)

lemma clamp_scores_keeps:
  "clamp_scores fs ev = Inr ev' \<Longrightarrow> in_range ev k \<Longrightarrow> in_range ev' k"
proof (induction fs arbitrary: ev)
  case Nil
  then show ?case by simp
next
  case (Cons f fs)
  from Cons.prems(1) obtain score where score: "ev f = Some score"
    by (cases "ev f") auto
  show ?case
  proof (cases "num_of score")
    case None
    then have kf: "k \<noteq> f" using Cons.prems(2) score by (auto simp add: in_range_def)
    have "clamp_scores fs (ev(f \<mapsto> PNum (max 0 (min 100 50)))) = Inr ev'"
      using Cons.prems(1) score None by simp
    then show ?thesis using Cons.IH Cons.prems(2) kf in_range_update_other by metis
  next
    case (Some x)
    show ?thesis
    proof (cases "x < 0 \<or> x > 100")
      case True
      then have kf: "k \<noteq> f" using Cons.prems(2) score Some by (auto simp add: in_range_def)
      have "clamp_scores fs (ev(f \<mapsto> PNum (max 0 (min 100 x)))) = Inr ev'"
        using Cons.prems(1) score Some True by simp
      then show ?thesis using Cons.IH Cons.prems(2) kf in_range_update_other by metis
    next
      case False
      then have "clamp_scores fs ev = Inr ev'" using Cons.prems(1) score Some by simp
      then show ?thesis using Cons.IH Cons.prems(2) by blast
    qed
  qed
qed

lemma clamp_scores_returns:
  "(\<And>f. f \<in> set fs \<Longrightarrow> ev f \<noteq> None) \<Longrightarrow>
   \<exists>ev'. clamp_scores fs ev = Inr ev' \<and> (\<forall>f\<in>set fs. in_range ev' f)
         \<and> (\<forall>k. k \<notin> set fs \<longrightarrow> ev' k = ev k)"
proof (induction fs arbitrary: ev)
  case Nil
  then show ?case by simp
next
  case (Cons f fs)
  obtain score where score: "ev f = Some score" using Cons.prems by auto
  define ev1 where "ev1 =
    (case num_of score of
       None \<Rightarrow> ev(f \<mapsto> PNum (max 0 (min 100 50)))
     | Some x \<Rightarrow> if x < 0 \<or> x > 100 then ev(f \<mapsto> PNum (max 0 (min 100 x))) else ev)"
  have step: "clamp_scores (f # fs) ev = clamp_scores fs ev1"
    using score by (simp add: ev1_def split: option.splits)
  have f_ok: "in_range ev1 f"
    using score by (auto simp add: ev1_def in_range_def split: option.splits)
  have present: "\<And>g. g \<in> set fs \<Longrightarrow> ev1 g \<noteq> None"
    using Cons.prems by (auto simp add: ev1_def split: option.splits)
  have other: "\<And>k. k \<noteq> f \<Longrightarrow> ev1 k = ev k"
    by (auto simp add: ev1_def split: option.splits)
  from Cons.IH [of ev1] present obtain ev' where ev': "clamp_scores fs ev1 = Inr ev'"
    "\<forall>g\<in>set fs. in_range ev' g" "\<forall>k. k \<notin> set fs \<longrightarrow> ev' k = ev1 k" by blast
  have "in_range ev' f" using clamp_scores_keeps [OF ev'(1) f_ok] .
  then show ?case using step ev' other by auto
qed

lemma round_half_even_of_int: "round_half_even (of_int n) = n"
  by (simp add: round_half_even_def)

lemma py_round2_of_int: "py_round2 (of_int n) = of_int n"
proof -
  have "of_int n * 100 = (of_int (n * 100) :: real)" by simp
  then have "round_half_even (of_int n * 100) = n * 100"
    using round_half_even_of_int [of "n * 100"] by simp
  then show ?thesis by (simp add: py_round2_def)
qed

lemma llm_base_score_int: "\<exists>n. llm_base_score d = of_int n \<and> 45 \<le> n \<and> n \<le> 65"
proof -
  have "llm_base_score d = of_int 65 \<or> llm_base_score d = of_int 55 \<or> llm_base_score d = of_int 45"
    by (simp add: llm_base_score_def)
  then show ?thesis by force
qed

lemma fallback_sub_scores:
  "sub_scores (llm_get_fallback_evaluation d) = Some (replicate 5 (llm_base_score d))"
  by (simp add: sub_scores_def llm_get_fallback_evaluation_def sub_score_fields_def Let_def
        numeral_eq_Suc)

lemma fallback_mean_consistent: "mean_consistent (llm_get_fallback_evaluation d)"
proof -
  obtain n where n: "llm_base_score d = of_int n" using llm_base_score_int by blast
  have "sum_list (replicate 5 (llm_base_score d)) / 5 = llm_base_score d"
    by (simp add: numeral_eq_Suc)
  moreover have "llm_get_fallback_evaluation d ''overall_score'' = Some (PNum (llm_base_score d))"
    by (simp add: llm_get_fallback_evaluation_def Let_def)
  ultimately show ?thesis
    using n py_round2_of_int [of n] by (simp add: mean_consistent_def fallback_sub_scores)
qed

lemma try_evaluate_mean_consistent:
  assumes "try_evaluate json_loads rep = Inr e"
  shows "mean_consistent e"
proof -
  from assms obtain reply_text kvs ev' vs s where
    parsed: "json_loads (clean_response reply_text) = Some (PDict kvs)"
    and present: "\<not> list_ex (\<lambda>field. map_of kvs field = None) required_fields"
    and clamp: "clamp_scores score_fields (map_of kvs) = Inr ev'"
    and look: "lookup_all (butlast score_fields) ev' = Inr vs"
    and sum: "py_sum vs = Inr s"
    and e: "e = ev'(''overall_score'' \<mapsto> PNum (py_round2 (s / real (length vs))))"
    by (auto simp add: try_evaluate_def Let_def
          split: llm_reply.splits option.splits pyval.splits sum.splits if_splits)
  have req: "\<And>f. f \<in> set score_fields \<Longrightarrow> map_of kvs f \<noteq> None"
    using present by (auto simp add: list_ex_iff required_fields_def)
  from clamp_scores_returns [of score_fields "map_of kvs"] req clamp
  have rng: "\<forall>f\<in>set score_fields. in_range ev' f" by auto
  then have "\<And>f. f \<in> set sub_score_fields \<Longrightarrow> in_range ev' f"
    by (simp add: score_fields_def)
  then obtain xs where xs: "those (map (\<lambda>f. Option.bind (ev' f) num_of) sub_score_fields) = Some xs"
    using those_in_range [of sub_score_fields ev'] by blast
  from lookup_sum [OF xs] look sum
  have s: "s = sum_list xs" and len: "length vs = 5"
    by (auto simp add: butlast_score_fields length_sub_score_fields)
  have "sub_scores e = Some xs"
    using xs by (simp add: e sub_scores_update overall_not_sub_score) (simp add: sub_scores_def)
  then show ?thesis by (simp add: mean_consistent_def e s len)
qed

lemma evaluate_excel_response_mean_consistent:
  "mean_consistent (evaluate_excel_response json_loads rep d)"
  by (cases "try_evaluate json_loads rep")
     (simp_all add: evaluate_excel_response_def fallback_mean_consistent
        try_evaluate_mean_consistent)

lemma in_range_has_number: "in_range e k \<Longrightarrow> has_number e k"
  by (auto simp add: in_range_def has_number_def split: option.splits)

lemma sub_scores_has_number:
  "sub_scores e = Some xs \<Longrightarrow> f \<in> set sub_score_fields \<Longrightarrow> has_number e f"
proof -
  have "\<And>fs xs. those (map (\<lambda>f. Option.bind (e f) num_of) fs) = Some xs \<Longrightarrow> f \<in> set fs \<Longrightarrow>
        has_number e f"
  proof -
    fix fs :: "string list" and xs
    show "those (map (\<lambda>f. Option.bind (e f) num_of) fs) = Some xs \<Longrightarrow> f \<in> set fs \<Longrightarrow>
        has_number e f"
      by (induction fs arbitrary: xs) (auto simp add: has_number_def split: option.splits)
  qed
  then show "sub_scores e = Some xs \<Longrightarrow> f \<in> set sub_score_fields \<Longrightarrow> has_number e f"
    unfolding sub_scores_def by blast
qed

lemma apply_adjustments_returns:
  "(\<And>f. f \<in> set fs \<Longrightarrow> has_number en f \<and> adj f \<noteq> None) \<Longrightarrow>
   \<exists>en'. apply_adjustments fs adj en = Inr en' \<and> (\<forall>f\<in>set fs. in_range en' f)
         \<and> (\<forall>k. k \<notin> set fs \<longrightarrow> en' k = en k)"
proof (induction fs arbitrary: en)
  case Nil
  then show ?case by simp
next
  case (Cons f fs)
  from Cons.prems [of f] obtain v x a where v: "en f = Some v" "num_of v = Some x" "adj f = Some a"
    by (cases "en f") (auto simp add: has_number_def)
  define en1 where "en1 = en(f \<mapsto> PNum (max 0 (min 100 (x + min 15 (max (- 15) a)))))"
  have step: "apply_adjustments (f # fs) adj en = apply_adjustments fs adj en1"
    using v by (simp add: en1_def Let_def)
  have f_ok: "in_range en1 f" by (simp add: en1_def in_range_def)
  have rest_ok: "\<And>g. g \<in> set fs \<Longrightarrow> has_number en1 g \<and> adj g \<noteq> None"
    using Cons.prems by (auto simp add: en1_def has_number_def)
  from Cons.IH [of en1] rest_ok obtain en' where en': "apply_adjustments fs adj en1 = Inr en'"
    "\<forall>g\<in>set fs. in_range en' g" "\<forall>k. k \<notin> set fs \<longrightarrow> en' k = en1 k" by blast
  have "in_range en' f"
  proof (cases "f \<in> set fs")
    case True
    then show ?thesis using en'(2) by blast
  next
    case False
    then have "en' f = en1 f" using en'(3) by blast
    then show ?thesis using f_ok by (simp add: in_range_def)
  qed
  moreover have "\<forall>k. k \<notin> set (f # fs) \<longrightarrow> en' k = en k"
    using en'(3) by (simp add: en1_def)
  ultimately show ?case using step en'(1,2) by simp
qed

lemma adjustments_keys:
  "f \<in> set sub_score_fields \<Longrightarrow> map_of (calculate_score_adjustments a d) f \<noteq> None"
  by (auto simp add: calculate_score_adjustments_def sub_score_fields_def Let_def)

lemma try_enhance_returns:
  assumes "sub_scores ai \<noteq> None"
  shows "\<exists>en. try_enhance ai a d = Inr en \<and> mean_consistent en
          \<and> (\<forall>f\<in>set sub_score_fields. in_range en f)
          \<and> (\<forall>k. k \<notin> set sub_score_fields \<union>
                 {''overall_score'', ''local_analysis'', ''score_adjustments'', ''confidence_score''}
               \<longrightarrow> en k = ai k)"
proof -
  let ?adj = "calculate_score_adjustments a d"
  have pre: "\<And>f. f \<in> set sub_score_fields \<Longrightarrow> has_number ai f \<and> map_of ?adj f \<noteq> None"
    using assms sub_scores_has_number adjustments_keys by (cases "sub_scores ai") auto
  from apply_adjustments_returns [of sub_score_fields ai "map_of ?adj"] pre
  obtain en0 where en0: "apply_adjustments sub_score_fields (map_of ?adj) ai = Inr en0"
    "\<forall>f\<in>set sub_score_fields. in_range en0 f"
    "\<forall>k. k \<notin> set sub_score_fields \<longrightarrow> en0 k = ai k" by blast
  obtain xs where xs: "those (map (\<lambda>f. Option.bind (en0 f) num_of) sub_score_fields) = Some xs"
    using those_in_range [of sub_score_fields en0] en0(2) by blast
  from lookup_sum [OF xs] obtain vs where vs: "lookup_all sub_score_fields en0 = Inr vs"
    "py_sum vs = Inr (sum_list xs)" "length vs = 5"
    by (auto simp add: length_sub_score_fields)
  define en1 where "en1 = en0(''overall_score'' \<mapsto> PNum (py_round2 (sum_list xs / 5)))"
  define en2 where "en2 = en1(''local_analysis'' \<mapsto> analysis_value a)"
  define en3 where "en3 = en2(''score_adjustments'' \<mapsto> PDict (map (\<lambda>(k, a). (k, PNum a)) ?adj))"
  define en where "en = en3(''confidence_score'' \<mapsto> PNum (calculate_confidence en3 a))"
  have res: "try_enhance ai a d = Inr en"
    using en0(1) vs by (simp add: try_enhance_def Let_def en_def en3_def en2_def en1_def)
  have keys: "''overall_score'' \<notin> set sub_score_fields" "''local_analysis'' \<notin> set sub_score_fields"
    "''score_adjustments'' \<notin> set sub_score_fields" "''confidence_score'' \<notin> set sub_score_fields"
    by (simp_all add: sub_score_fields_def)
  have sub: "sub_scores en = Some xs"
    using xs keys by (simp add: en_def en3_def en2_def en1_def sub_scores_update) (simp add: sub_scores_def)
  have ov: "en ''overall_score'' = Some (PNum (py_round2 (sum_list xs / 5)))"
    by (simp add: en_def en3_def en2_def en1_def)
  have mc: "mean_consistent en" using sub ov by (simp add: mean_consistent_def)
  have rng: "\<forall>f\<in>set sub_score_fields. in_range en f"
  proof
    fix f assume f: "f \<in> set sub_score_fields"
    then have "en f = en0 f" using keys by (auto simp add: en_def en3_def en2_def en1_def)
    then show "in_range en f" using en0(2) f by (simp add: in_range_def)
  qed
  have other: "\<forall>k. k \<notin> set sub_score_fields \<union>
                 {''overall_score'', ''local_analysis'', ''score_adjustments'', ''confidence_score''}
               \<longrightarrow> en k = ai k"
    using en0(3) by (simp add: en_def en3_def en2_def en1_def)
  show ?thesis using res mc rng other by blast
qed

lemma mean_consistent_sub_scores: "mean_consistent e \<Longrightarrow> sub_scores e \<noteq> None"
  by (auto simp add: mean_consistent_def split: option.splits)

lemma enhance_mean_consistent:
  "mean_consistent ai \<Longrightarrow> mean_consistent (enhance_evaluation ai a d)"
proof -
  assume "mean_consistent ai"
  then have "sub_scores ai \<noteq> None" by (rule mean_consistent_sub_scores)
  then obtain en where "try_enhance ai a d = Inr en" "mean_consistent en"
    using try_enhance_returns [of ai a d] by blast
  then show ?thesis by (simp add: enhance_evaluation_def)
qed

lemma mean_consistent_update:
  "k \<notin> set score_fields \<Longrightarrow> mean_consistent (e(k \<mapsto> v)) = mean_consistent e"
  by (auto simp add: mean_consistent_def sub_scores_update score_fields_def split: option.splits)

lemma clean_example: "clean_response example_reply = example_reply"
  by (simp add: clean_response_def strip_def is_space_def startswith_def endswith_def fence_def
        example_reply_def Let_def)

lemma example_provider_pass:
  "evaluate_excel_response example_json_loads (Returns example_reply) d
     = (case example_parsed of PDict kvs \<Rightarrow> (map_of kvs)(''overall_score'' \<mapsto> PNum 20))"
  by (simp add: evaluate_excel_response_def try_evaluate_def clean_example example_json_loads_def
        example_parsed_def required_fields_def score_fields_def sub_score_fields_def
        py_round2_def round_half_even_def Let_def)

lemma example_blend:
  "enhance_evaluation
     (case example_parsed of PDict kvs \<Rightarrow> (map_of kvs)(''overall_score'' \<mapsto> PNum 20))
     no_idea_analysis d ''overall_score'' = Some (PNum 20)
   \<and> sub_scores (enhance_evaluation
     (case example_parsed of PDict kvs \<Rightarrow> (map_of kvs)(''overall_score'' \<mapsto> PNum 20))
     no_idea_analysis d) = Some [100, 0, 0, 0, 0]"
  by (simp add: enhance_evaluation_def try_enhance_def calculate_score_adjustments_def
        no_idea_analysis_def example_parsed_def sub_score_fields_def sub_scores_def points_def
        py_round2_def round_half_even_def Let_def)

lemma method_not_score: "''evaluation_method'' \<notin> set score_fields"
  by (simp add: score_fields_def sub_score_fields_def)

lemma time_not_score: "''evaluation_time'' \<notin> set score_fields"
  by (simp add: score_fields_def sub_score_fields_def)

lemma cache_ok_update:
  "cache_ok ev \<Longrightarrow> mean_consistent e \<Longrightarrow>
   cache_ok (update_stats (ev\<lparr>evaluation_cache := (evaluation_cache ev)(k \<mapsto> e)\<rparr>) t)"
  by (auto simp add: cache_ok_def update_stats_def Let_def ran_def)

lemma evaluate_response_miss:
  "evaluation_cache ev (generate_cache_key h q a d) = None \<Longrightarrow>
   evaluate_response h jl inp ev q a d ty
     = ((enhance_evaluation (evaluate_excel_response jl (reply inp) d) (local_result inp) d)
          (''evaluation_time'' \<mapsto> PNum (elapsed inp), ''evaluation_method'' \<mapsto> PStr ''ai_enhanced''),
        update_stats (ev\<lparr>evaluation_cache := (evaluation_cache ev)(generate_cache_key h q a d \<mapsto>
           enhance_evaluation (evaluate_excel_response jl (reply inp) d) (local_result inp) d)\<rparr>)
          (elapsed inp))"
  by (simp add: evaluate_response_def Let_def)

lemma evaluate_response_hit:
  "evaluation_cache ev (generate_cache_key h q a d) = Some cached \<Longrightarrow>
   evaluate_response h jl inp ev q a d ty = (cached(''evaluation_method'' \<mapsto> PStr ''cached''), ev)"
  by (simp add: evaluate_response_def Let_def)

lemma evaluate_response_keeps_law:
  assumes ok: "cache_ok ev"
  shows "mean_consistent (fst (evaluate_response h jl inp ev q a d ty))
         \<and> cache_ok (snd (evaluate_response h jl inp ev q a d ty))"
proof (cases "evaluation_cache ev (generate_cache_key h q a d)")
  case None
  have "mean_consistent
          (enhance_evaluation (evaluate_excel_response jl (reply inp) d) (local_result inp) d)"
    by (simp add: enhance_mean_consistent evaluate_excel_response_mean_consistent)
  then show ?thesis
    using ok
    by (simp add: evaluate_response_miss [OF None] mean_consistent_update method_not_score
          time_not_score cache_ok_update)
next
  case (Some cached)
  then have "cached \<in> ran (evaluation_cache ev)" by (rule ranI)
  then have "mean_consistent cached" using ok by (simp add: cache_ok_def)
  then show ?thesis
    using ok by (simp add: evaluate_response_hit [OF Some] mean_consistent_update method_not_score)
qed

text \<open>
  Claim C1, amended. The overall score of every evaluation that the pipeline produces is the
  plain (unweighted) mean of its five sub-scores, rounded to two decimals: after the
  provider pass (\<open>evaluate_excel_response\<close>, fallback included), after the blend
  (\<open>_enhance_evaluation\<close>) and for the result of \<open>evaluate_response\<close>, fresh or cached.
  It is recomputed from the sub-scores, so the score the provider reports is never kept.
\<close>

theorem overall_score_plain_mean:
  "mean_consistent (evaluate_excel_response jl rep d)
   \<and> mean_consistent (enhance_evaluation (evaluate_excel_response jl rep d) an d)
   \<and> (cache_ok ev \<longrightarrow>
        mean_consistent (fst (evaluate_response h jl inp ev q a d ty))
        \<and> cache_ok (snd (evaluate_response h jl inp ev q a d ty)))"
  using evaluate_response_keeps_law [of ev h jl inp q a d ty]
  by (simp add: enhance_mean_consistent evaluate_excel_response_mean_consistent)

lemma cache_ok_empty: "cache_ok empty_evaluator"
  by (simp add: cache_ok_def empty_evaluator_def)

theorem overall_score_plain_mean_witness:
  "cache_ok empty_evaluator
   \<and> mean_consistent
        (fst (evaluate_response example_hash example_json_loads example_input empty_evaluator
                ''How do you use VLOOKUP to find a value in another table?'' ''no idea''
                ''intermediate'' ''formula''))"
  using overall_score_plain_mean [of example_json_loads "Returns example_reply" "''intermediate''"
      no_idea_analysis empty_evaluator example_hash example_input
      "''How do you use VLOOKUP to find a value in another table?''" "''no idea''" "''formula''"]
    cache_ok_empty
  by simp

lemma example_evaluation:
  "fst (evaluate_response example_hash example_json_loads example_input empty_evaluator
          ''How do you use VLOOKUP to find a value in another table?'' ''no idea''
          ''intermediate'' ''formula'')
   = (enhance_evaluation
        (case example_parsed of PDict kvs \<Rightarrow> (map_of kvs)(''overall_score'' \<mapsto> PNum 20))
        no_idea_analysis ''intermediate'')
       (''evaluation_time'' \<mapsto> PNum 1, ''evaluation_method'' \<mapsto> PStr ''ai_enhanced'')"
proof -
  have "evaluation_cache empty_evaluator
          (generate_cache_key example_hash
             ''How do you use VLOOKUP to find a value in another table?'' ''no idea''
             ''intermediate'') = None"
    by (simp add: empty_evaluator_def)
  from evaluate_response_miss [OF this]
  show ?thesis by (simp add: example_input_def example_provider_pass)
qed

text \<open>
  Claim C1, as stated, fails: for sub-scores 100, 0, 0, 0, 0 the pipeline's overall score is
  20, the plain mean, and not the weighted mean 35 (which is also what the provider
  reported).
\<close>

theorem overall_score_weighted_counterexample:
  "fst (evaluate_response example_hash example_json_loads example_input empty_evaluator
          ''How do you use VLOOKUP to find a value in another table?'' ''no idea''
          ''intermediate'' ''formula'') ''overall_score'' = Some (PNum 20)
   \<and> \<not> weighted_consistent
        (fst (evaluate_response example_hash example_json_loads example_input empty_evaluator
                ''How do you use VLOOKUP to find a value in another table?'' ''no idea''
                ''intermediate'' ''formula''))"
proof -
  let ?en = "enhance_evaluation
        (case example_parsed of PDict kvs \<Rightarrow> (map_of kvs)(''overall_score'' \<mapsto> PNum 20))
        no_idea_analysis ''intermediate''"
  let ?e = "?en(''evaluation_time'' \<mapsto> PNum 1, ''evaluation_method'' \<mapsto> PStr ''ai_enhanced'')"
  have ov: "?e ''overall_score'' = Some (PNum 20)"
    using example_blend [of "''intermediate''"] by simp
  have "''evaluation_time'' \<notin> set sub_score_fields" "''evaluation_method'' \<notin> set sub_score_fields"
    by (simp_all add: sub_score_fields_def)
  then have sub: "sub_scores ?e = Some [100, 0, 0, 0, 0]"
    using example_blend [of "''intermediate''"] by (simp add: sub_scores_update)
  have "py_round2 (sum_list (map2 (*) spec_weights [100, 0, 0, 0, 0])) = 35"
    by (simp add: spec_weights_def py_round2_def round_half_even_def)
  then have "\<not> weighted_consistent ?e"
    using ov sub by (simp add: weighted_consistent_def)
  then show ?thesis unfolding example_evaluation using ov by blast
qed

section \<open>Session state machine\<close>

lemma random_choice_member: "random_choice r xs = Some q \<Longrightarrow> q \<in> set xs"
  by (auto simp add: random_choice_def split: if_splits)

lemma get_random_question_fresh:
  assumes "get_random_question qs d ty c exclude_ids r = Some q"
  shows "qid q \<notin> set exclude_ids \<and> q \<in> set qs"
proof (cases "exclude_ids = []")
  case True
  then show ?thesis
    using random_choice_member [OF assms [unfolded get_random_question_def Let_def]]
    by (auto split: option.splits)
next
  case False
  then show ?thesis
    using random_choice_member [OF assms [unfolded get_random_question_def Let_def]]
    by (auto split: option.splits)
qed

lemma try_offsets_fresh:
  "try_offsets qs i asked r offs = Some q \<Longrightarrow> qid q \<notin> set asked \<and> q \<in> set qs"
  by (induction offs) (auto simp add: Let_def get_random_question_fresh split: if_splits option.splits)

lemma get_adaptive_question_fresh:
  "get_adaptive_question qs cur scs asked r = Inr (Some q) \<Longrightarrow> qid q \<notin> set asked \<and> q \<in> set qs"
  by (auto simp add: get_adaptive_question_def simp del: try_offsets.simps
        dest: get_random_question_fresh try_offsets_fresh split: sum.splits option.splits)

lemma get_next_question_fresh:
  "get_next_question qs state r = Some q \<Longrightarrow> qid q \<notin> set (questions_asked state) \<and> q \<in> set qs"
  by (auto simp add: get_next_question_def get_adaptive_question_fresh split: sum.splits)

lemma process_response_rejected:
  assumes "store w iid = None \<or> (\<exists>state. store w iid = Some state \<and> current_question state = None)"
  shows "\<exists>msg. process_response h jl w inp iid a rt = (Error msg, w)"
  using assms by (auto simp add: process_response_def)

lemma process_response_unscored:
  assumes "store w iid = Some state" and "current_question state = Some cq"
    and "evaluate_response h jl (eval_in inp) (evaluator_state w) (question_text cq) a
           (current_difficulty state) (type_value (question_type cq)) = (ev, evr)"
    and "Option.bind (ev ''overall_score'') num_of = None"
  shows "\<exists>msg. process_response h jl w inp iid a rt = (Error msg, w)"
  using assms by (simp add: process_response_def)

lemma process_response_unfold:
  assumes st: "store w iid = Some state" and cq: "current_question state = Some cq"
    and ev: "evaluate_response h jl (eval_in inp) (evaluator_state w) (question_text cq) a
               (current_difficulty state) (type_value (question_type cq)) = (ev, evr)"
    and sc: "Option.bind (ev ''overall_score'') num_of = Some score"
  shows "process_response h jl w inp iid a rt =
      (if should_continue_interview (answered state cq a ev score rt) then
         (case get_next_question (update_question_stats (questions w) (qid cq) score rt)
                 (answered state cq a ev score rt) (draw inp) of
            Some next_question \<Rightarrow>
              (Continue ev next_question,
               w\<lparr>questions := update_question_stats (questions w) (qid cq) score rt,
                  evaluator_state := evr,
                  store := (store w)(iid \<mapsto>
                    (answered state cq a ev score rt)
                      \<lparr>current_question := Some next_question,
                       questions_asked := questions_asked state @ [qid next_question]\<rparr>)\<rparr>)
          | None \<Rightarrow>
              end_interview
                (w\<lparr>questions := update_question_stats (questions w) (qid cq) score rt,
                   evaluator_state := evr\<rparr>)
                (narrative_reply inp) iid (answered state cq a ev score rt))
       else
         end_interview
           (w\<lparr>questions := update_question_stats (questions w) (qid cq) score rt,
              evaluator_state := evr\<rparr>)
           (narrative_reply inp) iid (answered state cq a ev score rt))"
  using st cq ev sc
  by (simp add: process_response_def Let_def answered_def cong: if_cong option.case_cong)

lemma answered_fields:
  "responses (answered state cq a ev score rt) = responses state @
     [\<lparr>question_id = qid cq, asked_text = question_text cq, candidate_response = a,
       evaluation = ev, response_time = rt\<rparr>]"
  "scores (answered state cq a ev score rt) = scores state @ [score]"
  "current_question (answered state cq a ev score rt) = current_question state"
  "questions_asked (answered state cq a ev score rt) = questions_asked state"
  "status (answered state cq a ev score rt) = status state"
  "final_assessment (answered state cq a ev score rt) = final_assessment state"
  "current_difficulty (answered state cq a ev score rt)
     = adjust_difficulty (scores state @ [score]) (current_difficulty state)"
  by (simp_all add: answered_def)

lemma process_response_processed:
  assumes st: "store w iid = Some state" and cq: "current_question state = Some cq"
    and ev: "evaluate_response h jl (eval_in inp) (evaluator_state w) (question_text cq) a
               (current_difficulty state) (type_value (question_type cq)) = (ev, evr)"
    and sc: "Option.bind (ev ''overall_score'') num_of = Some score"
  shows "\<exists>s'. snd (process_response h jl w inp iid a rt)
            = w\<lparr>questions := update_question_stats (questions w) (qid cq) score rt,
                evaluator_state := evr, store := (store w)(iid \<mapsto> s')\<rparr>
          \<and> responses s' = responses state @
                [\<lparr>question_id = qid cq, asked_text = question_text cq, candidate_response = a,
                  evaluation = ev, response_time = rt\<rparr>]
          \<and> scores s' = scores state @ [score]
          \<and> current_question s' \<noteq> None
          \<and> (questions_asked s' = questions_asked state
               \<or> (\<exists>i. questions_asked s' = questions_asked state @ [i]
                       \<and> i \<notin> set (questions_asked state)))
          \<and> ((status s' = COMPLETED
                \<and> final_assessment s'
                    = Some (generate_final_assessment (narrative_reply inp) iid (responses s'))
                \<and> fst (process_response h jl w inp iid a rt)
                    = Completed (generate_final_assessment (narrative_reply inp) iid (responses s')))
               \<or> (status s' = status state \<and> final_assessment s' = final_assessment state
                   \<and> length (responses s') < 15
                   \<and> (\<exists>q. fst (process_response h jl w inp iid a rt) = Continue ev q)))"
proof -
  let ?s2 = "answered state cq a ev score rt"
  let ?qs = "update_question_stats (questions w) (qid cq) score rt"
  note pr = process_response_unfold [OF st cq ev sc, of rt]
  have ended: ?thesis if e: "process_response h jl w inp iid a rt
      = end_interview (w\<lparr>questions := ?qs, evaluator_state := evr\<rparr>) (narrative_reply inp) iid ?s2"
  proof -
    let ?fa = "generate_final_assessment (narrative_reply inp) iid (responses ?s2)"
    let ?s = "?s2\<lparr>status := COMPLETED, final_assessment := Some ?fa\<rparr>"
    have "snd (process_response h jl w inp iid a rt)
            = w\<lparr>questions := ?qs, evaluator_state := evr, store := (store w)(iid \<mapsto> ?s)\<rparr>"
      and "fst (process_response h jl w inp iid a rt) = Completed ?fa"
      by (simp_all add: e end_interview_def Let_def)
    then show ?thesis
      using cq by (intro exI [of _ ?s]) (simp add: answered_fields)
  qed
  show ?thesis
  proof (cases "should_continue_interview ?s2")
    case False
    then show ?thesis using ended pr by simp
  next
    case True
    show ?thesis
    proof (cases "get_next_question ?qs ?s2 (draw inp)")
      case None
      then show ?thesis using ended pr True by simp
    next
      case (Some nq)
      let ?s = "?s2\<lparr>current_question := Some nq,
                      questions_asked := questions_asked state @ [qid nq]\<rparr>"
      have fresh: "qid nq \<notin> set (questions_asked state)"
        using get_next_question_fresh [OF Some] by (simp add: answered_fields)
      have lt: "length (responses ?s2) < 15"
        using True by (simp add: should_continue_interview_def Let_def split: if_splits)
      have "snd (process_response h jl w inp iid a rt)
            = w\<lparr>questions := ?qs, evaluator_state := evr, store := (store w)(iid \<mapsto> ?s)\<rparr>"
        and "fst (process_response h jl w inp iid a rt) = Continue ev nq"
        using pr True Some by simp_all
      then show ?thesis
        using fresh lt by (intro exI [of _ ?s]) (simp add: answered_fields)
    qed
  qed
qed

lemma asked_distinct_update:
  "asked_distinct w \<Longrightarrow> distinct (questions_asked s) \<Longrightarrow>
   store w' = (store w)(iid \<mapsto> s) \<Longrightarrow> asked_distinct w'"
  by (auto simp add: asked_distinct_def ran_def)

lemma asked_distinct_lookup:
  "asked_distinct w \<Longrightarrow> store w iid = Some s \<Longrightarrow> distinct (questions_asked s)"
  by (auto simp add: asked_distinct_def ran_def)

lemma start_interview_distinct:
  "asked_distinct w \<Longrightarrow> asked_distinct (snd (start_interview w iid lvl r))"
  by (cases "get_next_question (questions w)
        \<lparr>session_interview_id = iid, status = IN_PROGRESS, current_question_index = 0,
         questions_asked = [], responses = [], scores = [], current_difficulty = lvl,
         conversation_history = [], current_question = None, final_assessment = None\<rparr> r")
     (auto simp add: start_interview_def Let_def elim!: asked_distinct_update)

lemma asked_distinct_store:
  "asked_distinct w \<Longrightarrow> distinct (questions_asked s) \<Longrightarrow>
   asked_distinct (w\<lparr>store := (store w)(iid \<mapsto> s)\<rparr>)"
  by (rule asked_distinct_update [of w s _ iid]) simp_all

lemma pause_interview_distinct:
  assumes d: "asked_distinct w"
  shows "asked_distinct (snd (pause_interview w iid))"
proof (cases "store w iid")
  case None
  then show ?thesis using d by (simp add: pause_interview_def)
next
  case (Some state)
  have "distinct (questions_asked state)" using d Some by (rule asked_distinct_lookup)
  then show ?thesis using d Some by (simp add: pause_interview_def asked_distinct_store)
qed

lemma resume_interview_distinct:
  assumes d: "asked_distinct w"
  shows "asked_distinct (snd (resume_interview w iid))"
proof (cases "store w iid")
  case None
  then show ?thesis using d by (simp add: resume_interview_def)
next
  case (Some state)
  have "distinct (questions_asked state)" using d Some by (rule asked_distinct_lookup)
  then show ?thesis using d Some by (simp add: resume_interview_def asked_distinct_store)
qed

lemma process_response_distinct:
  assumes d: "asked_distinct w"
  shows "asked_distinct (snd (process_response h jl w inp iid a rt))"
proof (cases "store w iid")
  case None
  then show ?thesis using d process_response_rejected [of w iid h jl inp a rt] by auto
next
  case (Some state)
  show ?thesis
  proof (cases "current_question state")
    case None
    then show ?thesis using d Some process_response_rejected [of w iid h jl inp a rt] by auto
  next
    case cq: (Some cq)
    obtain ev evr where ev: "evaluate_response h jl (eval_in inp) (evaluator_state w)
        (question_text cq) a (current_difficulty state) (type_value (question_type cq)) = (ev, evr)"
      by (cases "evaluate_response h jl (eval_in inp) (evaluator_state w)
        (question_text cq) a (current_difficulty state) (type_value (question_type cq))") auto
    show ?thesis
    proof (cases "Option.bind (ev ''overall_score'') num_of")
      case None
      then show ?thesis using d process_response_unscored [OF Some cq ev None, of rt] by auto
    next
      case sc: (Some score)
      from process_response_processed [OF Some cq ev sc, of rt]
      obtain s' where s': "snd (process_response h jl w inp iid a rt)
            = w\<lparr>questions := update_question_stats (questions w) (qid cq) score rt,
                evaluator_state := evr, store := (store w)(iid \<mapsto> s')\<rparr>"
        "questions_asked s' = questions_asked state
               \<or> (\<exists>i. questions_asked s' = questions_asked state @ [i]
                       \<and> i \<notin> set (questions_asked state))"
        by blast
      have "distinct (questions_asked state)" using d Some by (rule asked_distinct_lookup)
      then have "distinct (questions_asked s')" using s'(2) by auto
      then show ?thesis using d s'(1) by (auto elim!: asked_distinct_update)
    qed
  qed
qed

lemma do_call_distinct: "asked_distinct w \<Longrightarrow> asked_distinct (snd (do_call h jl w c))"
  by (cases c) (simp_all add: start_interview_distinct pause_interview_distinct resume_interview_distinct
       process_response_distinct)

lemma run_distinct: "asked_distinct w \<Longrightarrow> asked_distinct (run h jl w cs)"
  by (induction cs arbitrary: w) (simp_all add: do_call_distinct)

lemma initial_distinct: "asked_distinct initial_world"
  by (simp add: asked_distinct_def initial_world_def)

text \<open>
  Claim C8. In every world that the conversation manager can reach from the start of the
  process, by any sequence of start, answer, pause and resume calls, the list of asked
  question ids of every stored session has no duplicates (its length is the size of its
  set); and a question that the selection returns for a session is never one of the ids
  the session has already asked.
\<close>

theorem no_repeated_question:
  "(store (run h jl initial_world cs) iid = Some s \<longrightarrow>
      distinct (questions_asked s)
      \<and> length (questions_asked s) = card (set (questions_asked s)))
   \<and> (get_next_question qs state r = Some q \<longrightarrow> qid q \<notin> set (questions_asked state))"
  using asked_distinct_lookup [OF run_distinct [OF initial_distinct], of h jl cs iid s]
    get_next_question_fresh [of qs state r q]
  by (auto simp add: distinct_card)

lemma new_question_fields:
  "qid (new_question i t ty d c) = i"
  "question_text (new_question i t ty d c) = t"
  "question_type (new_question i t ty d c) = ty"
  "difficulty (new_question i t ty d c) = d"
  "category (new_question i t ty d c) = Some c"
  "is_active (new_question i t ty d c) = True"
  "times_used (new_question i t ty d c) = 0"
  by (simp_all add: new_question_def)

lemma intermediate_questions:
  "filter (\<lambda>q. is_active q \<and> difficulty q = INTERMEDIATE) load_questions
     = [load_questions ! 5, load_questions ! 6, load_questions ! 7, load_questions ! 8,
        load_questions ! 9]"
  by (simp add: load_questions_def new_question_fields)

lemma first_question_example:
  "get_next_question load_questions
     \<lparr>session_interview_id = ''s1'', status = IN_PROGRESS, current_question_index = 0,
      questions_asked = [], responses = [], scores = [],
      current_difficulty = ''intermediate'', conversation_history = [],
      current_question = None, final_assessment = None\<rparr> 0
   = Some (load_questions ! 5)"
  by (simp add: get_next_question_def get_adaptive_question_def target_difficulty_def
        to_difficulty_def get_random_question_def intermediate_questions random_choice_def
        Let_def)

lemma first_question_id: "qid (load_questions ! 5) = ''inter_001''"
  by (simp add: load_questions_def new_question_fields)

lemma start_example:
  "start_interview initial_world ''s1'' ''intermediate'' 0
     = (Success (Some (load_questions ! 5)),
        initial_world\<lparr>store := [''s1'' \<mapsto> started_session]\<rparr>)"
  by (simp add: start_interview_def first_question_example first_question_id Let_def
        started_session_def initial_world_def)

lemma pause_example:
  "run example_hash example_json_loads initial_world [Start ''s1'' ''intermediate'' 0, Pause ''s1'']
     = paused_world"
  by (simp add: start_example pause_interview_def started_session_def paused_world_def)

lemma example_fresh_evaluation:
  "evaluate_response example_hash example_json_loads example_input empty_evaluator q a d ty
   = ((enhance_evaluation
        (case example_parsed of PDict kvs \<Rightarrow> (map_of kvs)(''overall_score'' \<mapsto> PNum 20))
        no_idea_analysis d)
       (''evaluation_time'' \<mapsto> PNum 1, ''evaluation_method'' \<mapsto> PStr ''ai_enhanced''),
      update_stats (empty_evaluator\<lparr>evaluation_cache := (evaluation_cache empty_evaluator)
        (generate_cache_key example_hash q a d \<mapsto>
           enhance_evaluation
             (case example_parsed of PDict kvs \<Rightarrow> (map_of kvs)(''overall_score'' \<mapsto> PNum 20))
             no_idea_analysis d)\<rparr>) 1)"
proof -
  have "evaluation_cache empty_evaluator (generate_cache_key example_hash q a d) = None"
    by (simp add: empty_evaluator_def)
  from evaluate_response_miss [OF this]
  show ?thesis by (simp add: example_input_def example_provider_pass)
qed

lemma example_score:
  "Option.bind (((enhance_evaluation
        (case example_parsed of PDict kvs \<Rightarrow> (map_of kvs)(''overall_score'' \<mapsto> PNum 20))
        no_idea_analysis d)
       (''evaluation_time'' \<mapsto> PNum 1, ''evaluation_method'' \<mapsto> PStr ''ai_enhanced''))
      ''overall_score'') num_of = Some 20"
  using example_blend [of d] by simp

lemma update_usage_stats_fields:
  "qid (update_usage_stats q sc rt) = qid q"
  "difficulty (update_usage_stats q sc rt) = difficulty q"
  "is_active (update_usage_stats q sc rt) = is_active q"
  "times_used (update_usage_stats q sc rt) = times_used q + 1"
  by (simp_all add: update_usage_stats_def Let_def)

lemma basic_questions_after_first:
  "filter (\<lambda>q. is_active q \<and> difficulty q = BASIC \<and> qid q \<noteq> ''inter_001'')
     (update_question_stats load_questions ''inter_001'' sc rt)
   = [load_questions ! 0, load_questions ! 1, load_questions ! 2, load_questions ! 3,
      load_questions ! 4]"
  by (simp add: load_questions_def new_question_fields update_usage_stats_fields)

lemma second_question_example:
  "get_next_question (update_question_stats load_questions ''inter_001'' sc rt)
     (answered (started_session\<lparr>status := PAUSED\<rparr>) (load_questions ! 5) a ev 20 rt) 0
   = Some (load_questions ! 0)"
  by (simp add: get_next_question_def get_adaptive_question_def target_difficulty_def
        answered_fields started_session_def adjust_difficulty_def mean_def last3_def
        to_difficulty_def difficulty_order_def get_random_question_def
        basic_questions_after_first random_choice_def Let_def)

lemma second_question_id: "qid (load_questions ! 0) = ''basic_001''"
  by (simp add: load_questions_def new_question_fields)

lemma paused_response:
  "process_response example_hash example_json_loads paused_world example_step ''s1'' ''no idea'' 30
   = (Continue
        ((enhance_evaluation
            (case example_parsed of PDict kvs \<Rightarrow> (map_of kvs)(''overall_score'' \<mapsto> PNum 20))
            no_idea_analysis ''intermediate'')
           (''evaluation_time'' \<mapsto> PNum 1, ''evaluation_method'' \<mapsto> PStr ''ai_enhanced''))
        (load_questions ! 0),
      paused_world
        \<lparr>questions := update_question_stats load_questions ''inter_001'' 20 30,
         evaluator_state :=
           update_stats (empty_evaluator\<lparr>evaluation_cache := (evaluation_cache empty_evaluator)
             (generate_cache_key example_hash (question_text (load_questions ! 5)) ''no idea''
                ''intermediate'' \<mapsto>
              enhance_evaluation
                (case example_parsed of PDict kvs \<Rightarrow> (map_of kvs)(''overall_score'' \<mapsto> PNum 20))
                no_idea_analysis ''intermediate'')\<rparr>) 1,
         store := [''s1'' \<mapsto>
           (answered (started_session\<lparr>status := PAUSED\<rparr>) (load_questions ! 5) ''no idea''
              ((enhance_evaluation
                  (case example_parsed of PDict kvs \<Rightarrow> (map_of kvs)(''overall_score'' \<mapsto> PNum 20))
                  no_idea_analysis ''intermediate'')
                 (''evaluation_time'' \<mapsto> PNum 1, ''evaluation_method'' \<mapsto> PStr ''ai_enhanced''))
              20 30)
             \<lparr>current_question := Some (load_questions ! 0),
              questions_asked := [''inter_001'', ''basic_001'']\<rparr>]\<rparr>)"
proof -
  have st: "store paused_world ''s1'' = Some (started_session\<lparr>status := PAUSED\<rparr>)"
    by (simp add: paused_world_def)
  have cq: "current_question (started_session\<lparr>status := PAUSED\<rparr>) = Some (load_questions ! 5)"
    by (simp add: started_session_def)
  have es: "evaluator_state paused_world = empty_evaluator"
    by (simp add: paused_world_def initial_world_def empty_evaluator_def)
  have cd: "current_difficulty (started_session\<lparr>status := PAUSED\<rparr>) = ''intermediate''"
    by (simp add: started_session_def)
  have ev: "evaluate_response example_hash example_json_loads (eval_in example_step)
      (evaluator_state paused_world) (question_text (load_questions ! 5)) ''no idea''
      (current_difficulty (started_session\<lparr>status := PAUSED\<rparr>))
      (type_value (question_type (load_questions ! 5)))
    = ((enhance_evaluation
        (case example_parsed of PDict kvs \<Rightarrow> (map_of kvs)(''overall_score'' \<mapsto> PNum 20))
        no_idea_analysis ''intermediate'')
       (''evaluation_time'' \<mapsto> PNum 1, ''evaluation_method'' \<mapsto> PStr ''ai_enhanced''),
      update_stats (empty_evaluator\<lparr>evaluation_cache := (evaluation_cache empty_evaluator)
        (generate_cache_key example_hash (question_text (load_questions ! 5)) ''no idea''
           ''intermediate'' \<mapsto>
           enhance_evaluation
             (case example_parsed of PDict kvs \<Rightarrow> (map_of kvs)(''overall_score'' \<mapsto> PNum 20))
             no_idea_analysis ''intermediate'')\<rparr>) 1)"
    unfolding es cd by (simp only: example_step_def step_input.simps example_fresh_evaluation)
  have cont: "should_continue_interview
      (answered (started_session\<lparr>status := PAUSED\<rparr>) (load_questions ! 5) ''no idea'' e 20 30)" for e
    by (simp add: should_continue_interview_def answered_fields started_session_def)
  have qs: "questions paused_world = load_questions"
    by (simp add: paused_world_def initial_world_def)
  have asked: "questions_asked (started_session\<lparr>status := PAUSED\<rparr>) = [''inter_001'']"
    by (simp add: started_session_def)
  have dr: "draw example_step = 0" by (simp add: example_step_def)
  have sw: "store paused_world = [''s1'' \<mapsto> started_session\<lparr>status := PAUSED\<rparr>]"
    by (simp add: paused_world_def)
  show ?thesis
    unfolding process_response_unfold [OF st cq ev example_score]
    by (simp add: cont qs first_question_id second_question_example second_question_id asked dr
          sw)
qed

text \<open>
  Claim C3 fails on the code: \<open>process_response\<close> does not read the status. After the run
  start, pause the session is paused with no response; the answer is nevertheless
  evaluated, the outcome is "continue" with the next question, and the stored session has a
  response, a score, a second asked question and a lower difficulty, while its status is
  still paused.
\<close>

theorem paused_session_processes_answer:
  "(\<exists>s. store (run example_hash example_json_loads initial_world
               [Start ''s1'' ''intermediate'' 0, Pause ''s1'']) ''s1'' = Some s
        \<and> status s = PAUSED \<and> responses s = [] \<and> scores s = []
        \<and> questions_asked s = [''inter_001''] \<and> current_difficulty s = ''intermediate'')
   \<and> (\<exists>ev. fst (process_response example_hash example_json_loads
                  (run example_hash example_json_loads initial_world
                     [Start ''s1'' ''intermediate'' 0, Pause ''s1''])
                  example_step ''s1'' ''no idea'' 30) = Continue ev (load_questions ! 0))
   \<and> (\<exists>s'. store (snd (process_response example_hash example_json_loads
                  (run example_hash example_json_loads initial_world
                     [Start ''s1'' ''intermediate'' 0, Pause ''s1''])
                  example_step ''s1'' ''no idea'' 30)) ''s1'' = Some s'
        \<and> status s' = PAUSED \<and> length (responses s') = 1 \<and> scores s' = [20]
        \<and> questions_asked s' = [''inter_001'', ''basic_001'']
        \<and> current_difficulty s' = ''basic'')"
  unfolding pause_example paused_response
  by (simp add: paused_world_def started_session_def answered_fields adjust_difficulty_def
        mean_def last3_def)

lemma run_snoc: "run h jl w (cs @ [c]) = snd (do_call h jl (run h jl w cs) c)"
  by (induction cs arbitrary: w) simp_all

lemma answered_run:
  "\<exists>s. store (run example_hash example_json_loads initial_world
              [Start ''s1'' ''intermediate'' 0, Pause ''s1'',
               Respond example_step ''s1'' ''no idea'' 30]) ''s1'' = Some s
       \<and> questions_asked s = [''inter_001'', ''basic_001'']"
proof -
  have "run example_hash example_json_loads initial_world
          ([Start ''s1'' ''intermediate'' 0, Pause ''s1''] @ [Respond example_step ''s1'' ''no idea'' 30])
        = snd (process_response example_hash example_json_loads paused_world example_step
                 ''s1'' ''no idea'' 30)"
    unfolding run_snoc pause_example by simp
  then show ?thesis by (simp add: paused_response)
qed

theorem no_repeated_question_witness:
  "(\<exists>s. store (run example_hash example_json_loads initial_world
              [Start ''s1'' ''intermediate'' 0, Pause ''s1'',
               Respond example_step ''s1'' ''no idea'' 30]) ''s1'' = Some s
        \<and> questions_asked s = [''inter_001'', ''basic_001'']
        \<and> distinct (questions_asked s)
        \<and> length (questions_asked s) = card (set (questions_asked s)))
   \<and> get_next_question load_questions
        \<lparr>session_interview_id = ''s1'', status = IN_PROGRESS, current_question_index = 0,
         questions_asked = [], responses = [], scores = [],
         current_difficulty = ''intermediate'', conversation_history = [],
         current_question = None, final_assessment = None\<rparr> 0
       = Some (load_questions ! 5)
   \<and> qid (load_questions ! 5) \<notin> set (questions_asked
        \<lparr>session_interview_id = ''s1'', status = IN_PROGRESS, current_question_index = 0,
         questions_asked = [], responses = [], scores = [],
         current_difficulty = ''intermediate'', conversation_history = [],
         current_question = None, final_assessment = None\<rparr>)"
proof -
  obtain s where s: "store (run example_hash example_json_loads initial_world
              [Start ''s1'' ''intermediate'' 0, Pause ''s1'',
               Respond example_step ''s1'' ''no idea'' 30]) ''s1'' = Some s"
    "questions_asked s = [''inter_001'', ''basic_001'']"
    using answered_run by blast
  from no_repeated_question [of example_hash example_json_loads
      "[Start ''s1'' ''intermediate'' 0, Pause ''s1'', Respond example_step ''s1'' ''no idea'' 30]"
      "''s1''" s load_questions
      "\<lparr>session_interview_id = ''s1'', status = IN_PROGRESS, current_question_index = 0,
         questions_asked = [], responses = [], scores = [],
         current_difficulty = ''intermediate'', conversation_history = [],
         current_question = None, final_assessment = None\<rparr>" 0 "load_questions ! 5"]
  show ?thesis using s first_question_example by blast
qed

section \<open>Evaluation cache and usage counters\<close>

lemma update_stats_cache: "evaluation_cache (update_stats ev t) = evaluation_cache ev"
  by (simp add: update_stats_def Let_def)

lemma evaluate_response_repeat:
  assumes miss: "evaluation_cache ev (generate_cache_key h q a d) = None"
  shows "evaluate_response h jl inp' (snd (evaluate_response h jl inp ev q a d ty)) q a d ty'
         = ((enhance_evaluation (evaluate_excel_response jl (reply inp) d) (local_result inp) d)
              (''evaluation_method'' \<mapsto> PStr ''cached''),
            snd (evaluate_response h jl inp ev q a d ty))"
proof -
  let ?en = "enhance_evaluation (evaluate_excel_response jl (reply inp) d) (local_result inp) d"
  have "evaluation_cache (snd (evaluate_response h jl inp ev q a d ty))
          (generate_cache_key h q a d) = Some ?en"
    by (simp add: evaluate_response_miss [OF miss] update_stats_cache)
  then show ?thesis by (rule evaluate_response_hit)
qed

lemma find_update_question_stats:
  "find (\<lambda>q. qid q = i) qs = Some q \<Longrightarrow>
   find (\<lambda>q. qid q = i) (update_question_stats qs i sc rt) = Some (update_usage_stats q sc rt)"
  by (induction qs) (auto simp add: update_usage_stats_fields)

lemma find_update_question_stats_none:
  "find (\<lambda>q. qid q = i) qs = None \<Longrightarrow> update_question_stats qs i sc rt = qs"
  by (induction qs) (auto split: if_splits)

lemma usage_after_update:
  "get_question_by_id qs i = Some q \<Longrightarrow>
   get_question_by_id (update_question_stats qs i sc rt) i = Some (update_usage_stats q sc rt)"
  unfolding get_question_by_id_def by (rule find_update_question_stats)

lemma process_response_outcome:
  "(\<exists>msg. process_response h jl w inp iid a rt = (Error msg, w))
   \<or> (\<exists>state cq score. store w iid = Some state \<and> current_question state = Some cq
        \<and> Option.bind (fst (evaluate_response h jl (eval_in inp) (evaluator_state w)
               (question_text cq) a (current_difficulty state) (type_value (question_type cq)))
               ''overall_score'') num_of = Some score
        \<and> questions (snd (process_response h jl w inp iid a rt))
            = update_question_stats (questions w) (qid cq) score rt
        \<and> (\<forall>msg. fst (process_response h jl w inp iid a rt) \<noteq> Error msg))"
proof (cases "store w iid")
  case None
  then show ?thesis using process_response_rejected [of w iid h jl inp a rt] by blast
next
  case (Some state)
  show ?thesis
  proof (cases "current_question state")
    case None
    then show ?thesis using Some process_response_rejected [of w iid h jl inp a rt] by blast
  next
    case cq: (Some cq)
    obtain ev evr where ev: "evaluate_response h jl (eval_in inp) (evaluator_state w)
        (question_text cq) a (current_difficulty state) (type_value (question_type cq)) = (ev, evr)"
      by (cases "evaluate_response h jl (eval_in inp) (evaluator_state w)
        (question_text cq) a (current_difficulty state) (type_value (question_type cq))") auto
    show ?thesis
    proof (cases "Option.bind (ev ''overall_score'') num_of")
      case None
      then show ?thesis using process_response_unscored [OF Some cq ev None, of rt] by blast
    next
      case sc: (Some score)
      from process_response_processed [OF Some cq ev sc, of rt]
      obtain s' where s': "snd (process_response h jl w inp iid a rt)
            = w\<lparr>questions := update_question_stats (questions w) (qid cq) score rt,
                evaluator_state := evr, store := (store w)(iid \<mapsto> s')\<rparr>"
        and out: "(\<exists>fa. fst (process_response h jl w inp iid a rt) = Completed fa)
          \<or> (\<exists>q. fst (process_response h jl w inp iid a rt) = Continue ev q)"
        by blast
      have "\<forall>msg. fst (process_response h jl w inp iid a rt) \<noteq> Error msg"
        using out by auto
      moreover have "questions (snd (process_response h jl w inp iid a rt))
            = update_question_stats (questions w) (qid cq) score rt"
        by (simp add: s')
      ultimately show ?thesis using Some cq ev sc by auto
    qed
  qed
qed

lemma first_question_intermediate:
  "current_difficulty state = ''intermediate'' \<Longrightarrow> scores state = [] \<Longrightarrow>
   questions_asked state = [] \<Longrightarrow>
   get_next_question load_questions state 0 = Some (load_questions ! 5)"
  by (simp add: get_next_question_def get_adaptive_question_def target_difficulty_def
        to_difficulty_def get_random_question_def intermediate_questions random_choice_def
        Let_def)

lemma two_sessions_run:
  "run example_hash example_json_loads initial_world
     [Start ''s1'' ''intermediate'' 0, Start ''s2'' ''intermediate'' 0] = two_sessions"
  by (simp add: start_example start_interview_def first_question_intermediate first_question_id
        initial_world_def started_session_def second_session_def two_sessions_def Let_def)

lemma first_bank_question: "get_question_by_id load_questions ''inter_001'' = Some (load_questions ! 5)"
  by (simp add: get_question_by_id_def load_questions_def new_question_fields)

lemma first_question_unused: "times_used (load_questions ! 5) = 0"
  by (simp add: load_questions_def new_question_fields)

lemma run_append: "run h jl w (cs @ ds) = run h jl (run h jl w cs) ds"
  by (induction cs arbitrary: w) simp_all

lemma twice_answered_bank:
  "questions (run example_hash example_json_loads initial_world
      [Start ''s1'' ''intermediate'' 0, Start ''s2'' ''intermediate'' 0,
       Respond example_step ''s1'' ''no idea'' 30, Respond example_step ''s2'' ''no idea'' 30])
   = update_question_stats (update_question_stats load_questions ''inter_001'' 20 30)
       ''inter_001'' 20 30"
proof -
  let ?q = "load_questions ! 5"
  let ?en = "enhance_evaluation
        (case example_parsed of PDict kvs \<Rightarrow> (map_of kvs)(''overall_score'' \<mapsto> PNum 20))
        no_idea_analysis ''intermediate''"
  let ?e1 = "?en(''evaluation_time'' \<mapsto> PNum 1, ''evaluation_method'' \<mapsto> PStr ''ai_enhanced'')"
  let ?ev1 = "update_stats (empty_evaluator\<lparr>evaluation_cache := (evaluation_cache empty_evaluator)
        (generate_cache_key example_hash (question_text ?q) ''no idea'' ''intermediate'' \<mapsto> ?en)\<rparr>) 1"
  let ?w3 = "snd (process_response example_hash example_json_loads two_sessions example_step
                ''s1'' ''no idea'' 30)"
  let ?w4 = "snd (process_response example_hash example_json_loads ?w3 example_step
                ''s2'' ''no idea'' 30)"
  have run_eq: "run example_hash example_json_loads initial_world
      ([Start ''s1'' ''intermediate'' 0, Start ''s2'' ''intermediate'' 0] @
       [Respond example_step ''s1'' ''no idea'' 30, Respond example_step ''s2'' ''no idea'' 30])
      = ?w4"
    unfolding run_append two_sessions_run by simp
  have st1: "store two_sessions ''s1'' = Some started_session"
    by (simp add: two_sessions_def)
  have cq1: "current_question started_session = Some ?q" by (simp add: started_session_def)
  have es: "evaluator_state two_sessions = empty_evaluator"
    by (simp add: two_sessions_def initial_world_def empty_evaluator_def)
  have cd1: "current_difficulty started_session = ''intermediate''"
    by (simp add: started_session_def)
  have ei: "eval_in example_step = example_input" by (simp add: example_step_def)
  have ev1: "evaluate_response example_hash example_json_loads (eval_in example_step)
      (evaluator_state two_sessions) (question_text ?q) ''no idea''
      (current_difficulty started_session) (type_value (question_type ?q)) = (?e1, ?ev1)"
    unfolding es cd1 ei by (rule example_fresh_evaluation)
  from process_response_processed [OF st1 cq1 ev1 example_score, of 30]
  obtain s' where w3: "?w3 = two_sessions\<lparr>questions :=
        update_question_stats (questions two_sessions) (qid ?q) 20 30,
      evaluator_state := ?ev1, store := (store two_sessions)(''s1'' \<mapsto> s')\<rparr>"
    by blast
  have qs: "questions two_sessions = load_questions"
    by (simp add: two_sessions_def initial_world_def)
  have st2: "store ?w3 ''s2'' = Some second_session"
    by (subst w3) (simp add: two_sessions_def)
  have cq2: "current_question second_session = Some ?q"
    by (simp add: second_session_def started_session_def)
  have cd2: "current_difficulty second_session = ''intermediate''"
    by (simp add: second_session_def started_session_def)
  have es3: "evaluator_state ?w3 = ?ev1" by (subst w3) simp
  have hit: "evaluation_cache ?ev1
      (generate_cache_key example_hash (question_text ?q) ''no idea'' ''intermediate'') = Some ?en"
    by (simp add: update_stats_cache)
  have ev2: "evaluate_response example_hash example_json_loads (eval_in example_step)
      (evaluator_state ?w3) (question_text ?q) ''no idea''
      (current_difficulty second_session) (type_value (question_type ?q))
      = (?en(''evaluation_method'' \<mapsto> PStr ''cached''), ?ev1)"
    unfolding es3 cd2 by (rule evaluate_response_hit [OF hit])
  have sc2: "Option.bind ((?en(''evaluation_method'' \<mapsto> PStr ''cached'')) ''overall_score'') num_of
      = Some 20"
    using example_blend [of "''intermediate''"] by simp
  from process_response_processed [OF st2 cq2 ev2 sc2, of 30]
  obtain s'' where w4: "?w4 = ?w3\<lparr>questions :=
        update_question_stats (questions ?w3) (qid ?q) 20 30,
      evaluator_state := ?ev1, store := (store ?w3)(''s2'' \<mapsto> s'')\<rparr>"
    by blast
  have "questions ?w4 = update_question_stats (questions ?w3) (qid ?q) 20 30"
    by (subst w4) simp
  moreover have "questions ?w3 = update_question_stats load_questions (qid ?q) 20 30"
    by (subst w3) (simp add: qs)
  ultimately show ?thesis using run_eq by (simp add: first_question_id)
qed

text \<open>
  Claim C4, as stated, fails twice over. The evaluation returned for the repeated triple is
  not identical to the first: its \<open>evaluation_method\<close> is \<open>cached\<close>. And when two sessions
  submit the same answer to the same question at the same difficulty, the second submission
  is a cache hit and the question's \<open>times_used\<close> still goes from 0 to 2.
\<close>

theorem repeated_answer_counterexample:
  "fst (evaluate_response example_hash example_json_loads example_input
          (snd (evaluate_response example_hash example_json_loads example_input empty_evaluator
                  (question_text (load_questions ! 5)) ''no idea'' ''intermediate''
                  ''data_analysis''))
          (question_text (load_questions ! 5)) ''no idea'' ''intermediate'' ''data_analysis'')
   \<noteq> fst (evaluate_response example_hash example_json_loads example_input empty_evaluator
            (question_text (load_questions ! 5)) ''no idea'' ''intermediate'' ''data_analysis'')
   \<and> map_option times_used
        (get_question_by_id
           (questions (run example_hash example_json_loads initial_world
              [Start ''s1'' ''intermediate'' 0, Start ''s2'' ''intermediate'' 0,
               Respond example_step ''s1'' ''no idea'' 30,
               Respond example_step ''s2'' ''no idea'' 30]))
           ''inter_001'') = Some 2"
proof -
  let ?q = "question_text (load_questions ! 5)"
  let ?first = "evaluate_response example_hash example_json_loads example_input empty_evaluator
                  ?q ''no idea'' ''intermediate'' ''data_analysis''"
  let ?second = "evaluate_response example_hash example_json_loads example_input (snd ?first)
                  ?q ''no idea'' ''intermediate'' ''data_analysis''"
  have miss: "evaluation_cache empty_evaluator
                (generate_cache_key example_hash ?q ''no idea'' ''intermediate'') = None"
    by (simp add: empty_evaluator_def)
  have "fst ?first ''evaluation_method'' = Some (PStr ''ai_enhanced'')"
    by (simp add: evaluate_response_miss [OF miss])
  moreover have "fst ?second ''evaluation_method'' = Some (PStr ''cached'')"
    by (simp add: evaluate_response_repeat [OF miss])
  ultimately have differ: "fst ?second \<noteq> fst ?first" by auto
  have "get_question_by_id
          (update_question_stats (update_question_stats load_questions ''inter_001'' 20 30)
             ''inter_001'' 20 30) ''inter_001''
        = Some (update_usage_stats (update_usage_stats (load_questions ! 5) 20 30) 20 30)"
    by (intro usage_after_update first_bank_question)
  then have "map_option times_used
        (get_question_by_id
           (questions (run example_hash example_json_loads initial_world
              [Start ''s1'' ''intermediate'' 0, Start ''s2'' ''intermediate'' 0,
               Respond example_step ''s1'' ''no idea'' 30,
               Respond example_step ''s2'' ''no idea'' 30]))
           ''inter_001'') = Some 2"
    unfolding twice_answered_bank
    by (simp add: update_usage_stats_fields first_question_unused)
  then show ?thesis using differ by blast
qed

text \<open>
  Claim C4, amended. After a first evaluation of a triple that was not cached, a second
  evaluation of the same triple calls neither the heuristics nor the provider: it returns
  the cached evaluation with \<open>evaluation_method\<close> set to \<open>cached\<close>, which agrees with the first
  result on every key other than \<open>evaluation_method\<close> and \<open>evaluation_time\<close>, and it leaves
  the evaluator as it was. Every answer that \<open>process_response\<close> processes, cache hit or
  not, updates the usage counters of the question once: \<open>times_used\<close> grows by one per
  submission.
\<close>

theorem repeated_answer:
  "(evaluation_cache ev (generate_cache_key h q a d) = None \<longrightarrow>
      snd (evaluate_response h jl inp' (snd (evaluate_response h jl inp ev q a d ty)) q a d ty')
        = snd (evaluate_response h jl inp ev q a d ty)
      \<and> fst (evaluate_response h jl inp ev q a d ty) ''evaluation_method''
          = Some (PStr ''ai_enhanced'')
      \<and> fst (evaluate_response h jl inp' (snd (evaluate_response h jl inp ev q a d ty)) q a d ty')
            ''evaluation_method'' = Some (PStr ''cached'')
      \<and> (\<forall>k. k \<noteq> ''evaluation_method'' \<and> k \<noteq> ''evaluation_time'' \<longrightarrow>
             fst (evaluate_response h jl inp' (snd (evaluate_response h jl inp ev q a d ty))
                    q a d ty') k
             = fst (evaluate_response h jl inp ev q a d ty) k))
   \<and> (store w iid = Some state \<and> current_question state = Some cq
        \<and> get_question_by_id (questions w) (qid cq) = Some qu
        \<and> (\<forall>msg. fst (process_response h jl w sinp iid answer rt) \<noteq> Error msg) \<longrightarrow>
        (\<exists>score. get_question_by_id (questions (snd (process_response h jl w sinp iid answer rt)))
                    (qid cq) = Some (update_usage_stats qu score rt))
        \<and> map_option times_used
             (get_question_by_id (questions (snd (process_response h jl w sinp iid answer rt)))
                (qid cq)) = Some (times_used qu + 1))"
proof -
  have one: "snd (evaluate_response h jl inp' (snd (evaluate_response h jl inp ev q a d ty)) q a d ty')
        = snd (evaluate_response h jl inp ev q a d ty)
      \<and> fst (evaluate_response h jl inp ev q a d ty) ''evaluation_method''
          = Some (PStr ''ai_enhanced'')
      \<and> fst (evaluate_response h jl inp' (snd (evaluate_response h jl inp ev q a d ty)) q a d ty')
            ''evaluation_method'' = Some (PStr ''cached'')
      \<and> (\<forall>k. k \<noteq> ''evaluation_method'' \<and> k \<noteq> ''evaluation_time'' \<longrightarrow>
             fst (evaluate_response h jl inp' (snd (evaluate_response h jl inp ev q a d ty))
                    q a d ty') k
             = fst (evaluate_response h jl inp ev q a d ty) k)"
    if miss: "evaluation_cache ev (generate_cache_key h q a d) = None"
    unfolding evaluate_response_repeat [OF miss]
    by (simp add: evaluate_response_miss [OF miss])
  have two: "(\<exists>score. get_question_by_id (questions (snd (process_response h jl w sinp iid answer rt)))
                    (qid cq) = Some (update_usage_stats qu score rt))
        \<and> map_option times_used
             (get_question_by_id (questions (snd (process_response h jl w sinp iid answer rt)))
                (qid cq)) = Some (times_used qu + 1)"
    if st: "store w iid = Some state" and cq: "current_question state = Some cq"
      and qu: "get_question_by_id (questions w) (qid cq) = Some qu"
      and ok: "\<forall>msg. fst (process_response h jl w sinp iid answer rt) \<noteq> Error msg"
  proof -
    from process_response_outcome [of h jl w sinp iid answer rt] ok st cq
    obtain score where "questions (snd (process_response h jl w sinp iid answer rt))
            = update_question_stats (questions w) (qid cq) score rt"
      by auto
    then have "get_question_by_id (questions (snd (process_response h jl w sinp iid answer rt)))
                 (qid cq) = Some (update_usage_stats qu score rt)"
      using usage_after_update [OF qu] by simp
    then show ?thesis by (auto simp add: update_usage_stats_fields)
  qed
  show ?thesis using one two by blast
qed

theorem repeated_answer_witness:
  "evaluation_cache empty_evaluator
     (generate_cache_key example_hash (question_text (load_questions ! 5)) ''no idea''
        ''intermediate'') = None
   \<and> fst (evaluate_response example_hash example_json_loads example_input
            (snd (evaluate_response example_hash example_json_loads example_input
                    empty_evaluator (question_text (load_questions ! 5)) ''no idea''
                    ''intermediate'' ''data_analysis''))
            (question_text (load_questions ! 5)) ''no idea'' ''intermediate'' ''data_analysis'')
        ''evaluation_method'' = Some (PStr ''cached'')
   \<and> store paused_world ''s1'' = Some (started_session\<lparr>status := PAUSED\<rparr>)
   \<and> current_question (started_session\<lparr>status := PAUSED\<rparr>) = Some (load_questions ! 5)
   \<and> get_question_by_id (questions paused_world) (qid (load_questions ! 5))
       = Some (load_questions ! 5)
   \<and> (\<forall>msg. fst (process_response example_hash example_json_loads paused_world example_step
                    ''s1'' ''no idea'' 30) \<noteq> Error msg)
   \<and> map_option times_used
        (get_question_by_id
           (questions (snd (process_response example_hash example_json_loads paused_world
                              example_step ''s1'' ''no idea'' 30)))
           (qid (load_questions ! 5))) = Some 1"
proof -
  have miss: "evaluation_cache empty_evaluator
     (generate_cache_key example_hash (question_text (load_questions ! 5)) ''no idea''
        ''intermediate'') = None"
    by (simp add: empty_evaluator_def)
  have st: "store paused_world ''s1'' = Some (started_session\<lparr>status := PAUSED\<rparr>)"
    by (simp add: paused_world_def)
  have cq: "current_question (started_session\<lparr>status := PAUSED\<rparr>) = Some (load_questions ! 5)"
    by (simp add: started_session_def)
  have qu: "get_question_by_id (questions paused_world) (qid (load_questions ! 5))
       = Some (load_questions ! 5)"
    by (simp add: paused_world_def initial_world_def first_question_id first_bank_question)
  have ok: "\<forall>msg. fst (process_response example_hash example_json_loads paused_world example_step
                    ''s1'' ''no idea'' 30) \<noteq> Error msg"
    by (simp add: paused_response)
  from repeated_answer [of empty_evaluator example_hash "question_text (load_questions ! 5)"
      "''no idea''" "''intermediate''" example_json_loads example_input example_input
      "''data_analysis''" "''data_analysis''" paused_world "''s1''"
      "started_session\<lparr>status := PAUSED\<rparr>" "load_questions ! 5" "load_questions ! 5"
      example_step "''no idea''" 30]
  show ?thesis using miss st cq qu ok by (simp add: first_question_unused)
qed

end
